theory Spec2Isabelle
  imports Complex_Main "HOL-Library.Word"
begin

section \<open>Errors, assertions and JSON values\<close>

text \<open>
  Exceptions are values. \<open>Error\<close> is a JavaScript \<^verbatim>\<open>new Error(message)\<close>, \<open>TypeError\<close> the
  engine's error on a property read from \<^verbatim>\<open>null\<close> or \<^verbatim>\<open>undefined\<close> and on a conversion that
  finds no primitive value, \<open>SyntaxError\<close> the one of \<^verbatim>\<open>response.json()\<close> on a body that is not
  JSON. The text of an engine error is not fixed by the language; the texts used here only
  name the failing operation.
\<close>

datatype error = Error string | TypeError string | SyntaxError string

text \<open>
  \<^verbatim>\<open>assertTrue\<close> of \<^verbatim>\<open>server.ts\<close> (lines 282-286) and of the client utilities (lines 66-70):
  \<^verbatim>\<open>message || 'Assertion failed'\<close> replaces an empty message.
\<close>

definition assertTrue :: "bool \<Rightarrow> string \<Rightarrow> error + unit" where
  "assertTrue condition message =
     (if \<not> condition then Inl (Error (if message = [] then ''Assertion failed'' else message))
      else Inr ())"

text \<open>
  The values a parsed JSON body can hold, with \<^verbatim>\<open>undefined\<close> for a property that is absent.
  A JSON number is a finite double, hence a rational; the code only compares numbers and
  truncates them, which is exact on rationals. An object is the list of its own
  properties in the order of \<^verbatim>\<open>Object.keys\<close>; a read takes the first entry of a key.
\<close>

datatype jsval =
    JUndefined
  | JNull
  | JBool bool
  | JNumber rat
  | JString string
  | JArray "jsval list"
  | JObject "(string \<times> jsval) list"

type_synonym byte = "8 word"

text \<open>
  Decimal rendering of a loop counter or a status code, as string concatenation and
  property access do it (the language writes a natural number below \<open>10^21\<close> in decimal).
\<close>

definition digit_char :: "nat \<Rightarrow> char" where
  "digit_char d = ''0123456789'' ! d"

function string_of_nat :: "nat \<Rightarrow> string" where
  "string_of_nat n =
     (if n < 10 then [digit_char n] else string_of_nat (n div 10) @ [digit_char (n mod 10)])"
  by pat_completeness auto
termination
  by (relation "measure id") auto

declare string_of_nat.simps [simp del]

text \<open>
  \<^verbatim>\<open>xs[i]\<close> in JavaScript: \<^verbatim>\<open>undefined\<close> (here \<open>None\<close>) out of range, never an exception.
\<close>

definition nth_js :: "'a list \<Rightarrow> nat \<Rightarrow> 'a option" where
  "nth_js xs i = (if i < length xs then Some (xs ! i) else None)"

text \<open>
  \<^verbatim>\<open>value.key\<close> for an own data property: a read from \<^verbatim>\<open>null\<close> or \<^verbatim>\<open>undefined\<close> throws, an
  absent property reads as \<^verbatim>\<open>undefined\<close>. Arrays and strings answer \<^verbatim>\<open>length\<close> and their
  indices; inherited methods are not data and are not modelled. \<open>element\<close> is \<^verbatim>\<open>value[j]\<close>
  for a loop counter \<open>j\<close>, the read of the property whose key is \<open>j\<close> in decimal.
\<close>

fun property :: "jsval \<Rightarrow> string \<Rightarrow> error + jsval" where
  "property JUndefined key = Inl (TypeError (''Cannot read properties of undefined (reading '' @ key @ '')''))"
| "property JNull key = Inl (TypeError (''Cannot read properties of null (reading '' @ key @ '')''))"
| "property (JObject kvs) key = Inr (case map_of kvs key of None \<Rightarrow> JUndefined | Some v \<Rightarrow> v)"
| "property (JArray xs) key =
     Inr (if key = ''length'' then JNumber (of_nat (length xs))
          else (case find (\<lambda>i. string_of_nat i = key) [0..<length xs] of
                  None \<Rightarrow> JUndefined
                | Some i \<Rightarrow> xs ! i))"
| "property (JString s) key =
     Inr (if key = ''length'' then JNumber (of_nat (length s))
          else (case find (\<lambda>i. string_of_nat i = key) [0..<length s] of
                  None \<Rightarrow> JUndefined
                | Some i \<Rightarrow> JString [s ! i]))"
| "property (JBool b) key = Inr JUndefined"
| "property (JNumber r) key = Inr JUndefined"

definition element :: "jsval \<Rightarrow> nat \<Rightarrow> error + jsval" where
  "element v j =
     (case v of
        JArray xs \<Rightarrow> Inr (case nth_js xs j of None \<Rightarrow> JUndefined | Some x \<Rightarrow> x)
      | JString s \<Rightarrow> Inr (case nth_js s j of None \<Rightarrow> JUndefined | Some c \<Rightarrow> JString [c])
      | _ \<Rightarrow> property v (string_of_nat j))"

text \<open>\<^verbatim>\<open>x != undefined\<close> is loose: it is false for \<^verbatim>\<open>null\<close> as well.\<close>

definition not_undefined :: "jsval \<Rightarrow> bool" where
  "not_undefined v = (v \<noteq> JUndefined \<and> v \<noteq> JNull)"

text \<open>
  \<^verbatim>\<open>Object.keys(value)\<close>: it throws for \<^verbatim>\<open>null\<close> and \<^verbatim>\<open>undefined\<close>, lists the indices of an array
  or a string, and finds no key in a number or a boolean.
\<close>

definition Object_keys :: "jsval \<Rightarrow> error + string list" where
  "Object_keys v =
     (case v of
        JUndefined \<Rightarrow> Inl (TypeError ''Cannot convert undefined or null to object'')
      | JNull \<Rightarrow> Inl (TypeError ''Cannot convert undefined or null to object'')
      | JObject kvs \<Rightarrow> Inr (map fst kvs)
      | JArray xs \<Rightarrow> Inr (map string_of_nat [0..<length xs])
      | JString s \<Rightarrow> Inr (map string_of_nat [0..<length s])
      | _ \<Rightarrow> Inr [])"

section \<open>Conversions of the language\<close>

text \<open>
  What string concatenation, template strings and the comparison \<^verbatim>\<open><\<close> do with a JSON
  value. The result of a conversion to a number is a \<open>jsnumber\<close>. Two functions of the
  language are parameters, gathered in an \<open>engine\<close>: the text of a number
  (\<^verbatim>\<open>Number::toString\<close>) and the number a text denotes (\<^verbatim>\<open>StringToNumber\<close>); every statement
  below holds whatever they are.

  \<open>ToString\<close> is the conversion that \<^verbatim>\<open>'text' + value\<close> and \<^verbatim>\<open>`${value}`\<close> apply. An object is
  converted by its \<^verbatim>\<open>toString\<close> and \<^verbatim>\<open>valueOf\<close> methods: the inherited ones give
  \<^verbatim>\<open>[object Object]\<close>, but an own property \<^verbatim>\<open>toString\<close> of a parsed object hides the inherited
  method and cannot be called, the inherited \<^verbatim>\<open>valueOf\<close> returns the object itself, and the
  conversion throws a \<^verbatim>\<open>TypeError\<close>. An array is converted by \<^verbatim>\<open>join\<close>, which converts each
  element in turn, \<^verbatim>\<open>null\<close> and \<^verbatim>\<open>undefined\<close> to the empty text.
\<close>

datatype jsnumber = NotANumber | Finite rat | PlusInfinity | MinusInfinity

record engine =
  NumberToString :: "rat \<Rightarrow> string"
  StringToNumber :: "string \<Rightarrow> jsnumber"

fun ToString :: "engine \<Rightarrow> jsval \<Rightarrow> error + string"
  and Array_join :: "engine \<Rightarrow> jsval list \<Rightarrow> error + string" where
  "ToString eng JUndefined = Inr ''undefined''"
| "ToString eng JNull = Inr ''null''"
| "ToString eng (JBool b) = Inr (if b then ''true'' else ''false'')"
| "ToString eng (JNumber r) = Inr (NumberToString eng r)"
| "ToString eng (JString s) = Inr s"
| "ToString eng (JArray xs) = Array_join eng xs"
| "ToString eng (JObject kvs) =
     (if ''toString'' \<in> set (map fst kvs)
      then Inl (TypeError ''Cannot convert object to primitive value'')
      else Inr ''[object Object]'')"
| "Array_join eng [] = Inr []"
| "Array_join eng (x # xs) =
     (case (if x = JUndefined \<or> x = JNull then Inr [] else ToString eng x) of
        Inl e \<Rightarrow> Inl e
      | Inr text \<Rightarrow>
          (case Array_join eng xs of
             Inl e \<Rightarrow> Inl e
           | Inr rest \<Rightarrow> Inr (if xs = [] then text else text @ '','' @ rest)))"

text \<open>
  \<open>ToNumber\<close> is the conversion that \<^verbatim>\<open>j < value\<close> applies to its right operand when the left
  one is a number; an object or an array is first converted to its text. \<open>index_below\<close> is
  the comparison itself for a counter \<open>j\<close>: it is false for \<^verbatim>\<open>NaN\<close>.
\<close>

definition ToNumber :: "engine \<Rightarrow> jsval \<Rightarrow> error + jsnumber" where
  "ToNumber eng v =
     (case v of
        JUndefined \<Rightarrow> Inr NotANumber
      | JNull \<Rightarrow> Inr (Finite 0)
      | JBool b \<Rightarrow> Inr (Finite (if b then 1 else 0))
      | JNumber r \<Rightarrow> Inr (Finite r)
      | JString s \<Rightarrow> Inr (StringToNumber eng s)
      | _ \<Rightarrow> (case ToString eng v of
                Inl e \<Rightarrow> Inl e
              | Inr text \<Rightarrow> Inr (StringToNumber eng text)))"

definition index_below :: "nat \<Rightarrow> jsnumber \<Rightarrow> bool" where
  "index_below j limit =
     (case limit of
        Finite r \<Rightarrow> of_nat j < r
      | PlusInfinity \<Rightarrow> True
      | _ \<Rightarrow> False)"

text \<open>
  The counters of a loop \<^verbatim>\<open>for (let j = 0; j < limit; j++)\<close> whose body reads \<^verbatim>\<open>value[j]\<close> and
  throws when that is \<^verbatim>\<open>undefined\<close>. Below a finite limit they are the naturals less than it.
  Under an infinite limit the loop can only end by that exception, and a value has an
  undefined element among its first \<open>own_count + 1\<close> (lemma \<open>element_undefined_within\<close>), so
  those counters are all the loop can reach.
\<close>

definition own_count :: "jsval \<Rightarrow> nat" where
  "own_count v =
     (case v of
        JArray xs \<Rightarrow> length xs
      | JString s \<Rightarrow> length s
      | JObject kvs \<Rightarrow> length kvs
      | _ \<Rightarrow> 0)"

definition loop_indices :: "jsnumber \<Rightarrow> jsval \<Rightarrow> nat list" where
  "loop_indices limit v =
     (case limit of
        Finite r \<Rightarrow> [0..<nat \<lceil>r\<rceil>]
      | PlusInfinity \<Rightarrow> [0..<own_count v + 1]
      | _ \<Rightarrow> [])"

section \<open>Data model\<close>

text \<open>
  Modelled from the spec: the classes \<^verbatim>\<open>Frame\<close> (\<^verbatim>\<open>./Frame\<close>) and \<^verbatim>\<open>Metadata\<close>
  (\<^verbatim>\<open>./Metadata\<close>) are imported by \<^verbatim>\<open>server.ts\<close> but are not among the sources. Their fields are
  those of section 3 of the specification, in the order of the constructor calls of
  \<^verbatim>\<open>server.ts\<close> (lines 69, 227 and 229). Identifiers, duration, repeat count and
  \<^verbatim>\<open>totalFrames\<close> are \<open>jsval\<close>: the handlers store whatever the request, \<^verbatim>\<open>frames.length\<close> or
  \<^verbatim>\<open>frameOrder[j]\<close> gave them, \<^verbatim>\<open>undefined\<close> included. The animation identifier of a frame is
  the field \<open>frame_animationID\<close>.
\<close>

record Frame =
  frameID :: jsval
  frame_animationID :: jsval
  data :: "byte list"

record Metadata =
  animationID :: jsval
  frameDuration :: jsval
  repeatCount :: jsval
  totalFrames :: jsval
  frameOrder :: "string list"

text \<open>
  Modelled from the spec: the constructor of \<^verbatim>\<open>Frame\<close>. Section 3 requires that construction
  with \<^verbatim>\<open>data.length\<close> other than 768 fails and never truncates or pads.
\<close>

definition new_Frame :: "jsval \<Rightarrow> jsval \<Rightarrow> byte list \<Rightarrow> error + Frame" where
  "new_Frame fid aid bytes =
     (if length bytes = 768
      then Inr \<lparr>frameID = fid, frame_animationID = aid, data = bytes\<rparr>
      else Inl (Error ''Invalid frame data length''))"

text \<open>
  An entry of the request body, \<^verbatim>\<open>interface AnimationState\<close> (lines 185-190), as the four
  property reads of the code see it. The interface is a compile-time annotation: each
  field holds any value, \<^verbatim>\<open>undefined\<close> when the entry has no such property (which is the case
  of every property of an entry that is a number, a text, a boolean or an array). A body
  entry is \<open>None\<close> when it is \<^verbatim>\<open>null\<close>. A frame is any value as well.
\<close>

record AnimationState =
  state_animationID :: jsval
  state_frameDuration :: jsval
  state_repeatCount :: jsval
  frames :: jsval

section \<open>The pixel buffer codec (client utilities)\<close>

definition IMAGE_PIXEL_LENGTH :: nat where
  "IMAGE_PIXEL_LENGTH = 16"

definition FRAME_PIXEL_COUNT :: nat where
  "FRAME_PIXEL_COUNT = IMAGE_PIXEL_LENGTH ^ 2"

text \<open>
  \<^verbatim>\<open>get2Darray\<close> (lines 84-94). The inner loop writes the three bytes at \<open>index\<close> into column
  \<open>j\<close> of row \<open>i\<close>; the outer loop does so for every row of \<open>result\<close>, which starts as 16 rows
  of 16 empty slots (an empty slot is \<open>[]\<close>). The length assertion runs first, so every read
  \<open>arr ! index\<close> is inside the array.
\<close>

function get2Darray_cols :: "'a list \<Rightarrow> nat \<Rightarrow> nat \<Rightarrow> 'a list list \<Rightarrow> 'a list list" where
  "get2Darray_cols arr i j row =
     (if j < IMAGE_PIXEL_LENGTH then
        (let index = 3 * ((i * IMAGE_PIXEL_LENGTH) + j)
         in get2Darray_cols arr i (j + 1)
              (row[j := [arr ! index, arr ! (index + 1), arr ! (index + 2)]]))
      else row)"
  by pat_completeness auto
termination
  by (relation "measure (\<lambda>(arr, i, j, row). IMAGE_PIXEL_LENGTH - j)") auto

function get2Darray_rows :: "'a list \<Rightarrow> nat \<Rightarrow> 'a list list list \<Rightarrow> 'a list list list" where
  "get2Darray_rows arr i result =
     (if i < IMAGE_PIXEL_LENGTH then
        get2Darray_rows arr (i + 1) (result[i := get2Darray_cols arr i 0 (result ! i)])
      else result)"
  by pat_completeness auto
termination
  by (relation "measure (\<lambda>(arr, i, result). IMAGE_PIXEL_LENGTH - i)") auto

definition get2Darray :: "'a list \<Rightarrow> error + 'a list list list" where
  "get2Darray arr =
     (case assertTrue (length arr = FRAME_PIXEL_COUNT * 3) ''Array length needs to be 256*3'' of
        Inl e \<Rightarrow> Inl e
      | Inr _ \<Rightarrow>
          Inr (get2Darray_rows arr 0
                 (replicate IMAGE_PIXEL_LENGTH (replicate IMAGE_PIXEL_LENGTH []))))"

text \<open>The three bytes of pixel \<open>k\<close> of a flat buffer.\<close>

definition triplet :: "'a list \<Rightarrow> nat \<Rightarrow> 'a list" where
  "triplet arr k = [arr ! (3 * k), arr ! (3 * k + 1), arr ! (3 * k + 2)]"

section \<open>The identifier generator\<close>

text \<open>
  \<^verbatim>\<open>genFrameID\<close> (client utilities, lines 218-226). \<^verbatim>\<open>server.ts\<close> imports its own copy from
  \<^verbatim>\<open>./utils\<close>, which is not among the sources; the client's comment says the two are the same
  method, and the server's calls are modelled with this one. \<^verbatim>\<open>Math.random()\<close> is a supply of
  numbers (\<open>draws\<close>: the number at 0 is the next one), consumed one per character; a real
  draw lies in \<open>[0, 1)\<close>, and for any other number \<^verbatim>\<open>characters[...]\<close> is \<^verbatim>\<open>undefined\<close>, which
  \<^verbatim>\<open>+=\<close> appends as text.
\<close>

type_synonym draws = "nat \<Rightarrow> rat"

definition characters :: string where
  "characters = ''0123456789abcdef''"

definition character_at :: "int \<Rightarrow> string" where
  "character_at i =
     (if 0 \<le> i \<and> i < int (length characters) then [characters ! nat i] else ''undefined'')"

fun genFrameID_loop :: "nat \<Rightarrow> string \<Rightarrow> draws \<Rightarrow> string \<times> draws" where
  "genFrameID_loop 0 result rs = (result, rs)"
| "genFrameID_loop (Suc n) result rs =
     genFrameID_loop n
       (result @ character_at (floor (rs 0 * of_nat (length characters)))) (\<lambda>k. rs (Suc k))"

definition genFrameID :: "nat \<Rightarrow> draws \<Rightarrow> (error + string) \<times> draws" where
  "genFrameID len rs =
     (if len < 1 then (Inl (Error ''Length must be at least 1''), rs)
      else (case genFrameID_loop len [] rs of (result, rs') \<Rightarrow> (Inr result, rs')))"

text \<open>
  The identifiers that \<open>n\<close> successive calls of \<open>genFrameID\<close> return, in order of the calls.
\<close>

fun generated_ids :: "nat \<Rightarrow> nat \<Rightarrow> draws \<Rightarrow> string list" where
  "generated_ids len 0 rs = []"
| "generated_ids len (Suc n) rs =
     (case genFrameID len rs of
        (Inl e, rs') \<Rightarrow> []
      | (Inr fid, rs') \<Rightarrow> fid # generated_ids len n rs')"

section \<open>The persisted store and the process state\<close>

text \<open>
  The store collaborator (\<^verbatim>\<open>./db/connectToMongo\<close>, \<^verbatim>\<open>./db/animationOperations\<close>,
  \<^verbatim>\<open>./db/metadataOperations\<close>) is not among the sources. It is a parameter: any five
  operations over any store state \<open>'s\<close>, each of which may fail. The operations are
  asynchronous, as the \<^verbatim>\<open>await\<close> at each of their calls has it: a failure is a rejected
  promise, an exception at the \<^verbatim>\<open>await\<close>. \<^verbatim>\<open>fetchFrame\<close> answers \<open>None\<close> for \<^verbatim>\<open>null\<close>.
\<close>

record 's db =
  connectToMongo :: "'s \<Rightarrow> (error + unit) \<times> 's"
  fetchMetadataArray :: "'s \<Rightarrow> (error + Metadata list) \<times> 's"
  replaceMetadataArray :: "Metadata list \<Rightarrow> 's \<Rightarrow> (error + unit) \<times> 's"
  fetchFrame :: "jsval \<Rightarrow> 's \<Rightarrow> (error + byte list option) \<times> 's"
  insertFrame :: "jsval \<Rightarrow> jsval \<Rightarrow> byte list \<Rightarrow> 's \<Rightarrow> (error + unit) \<times> 's"

text \<open>
  The two module variables of \<^verbatim>\<open>server.ts\<close> (lines 20-21), the store and the random supply.
  \<^verbatim>\<open>animationCache\<close> is a \<^verbatim>\<open>Set<Frame>\<close> of objects: membership is by reference, every
  \<^verbatim>\<open>new Frame\<close> is a new member whatever its fields, and iteration follows insertion. That is a
  list in insertion order.
\<close>

record 's world =
  animationCache :: "Frame list"
  metadataCache :: "Metadata list"
  store :: 's
  random :: "draws"

text \<open>What a route handler did with the request.\<close>

datatype response =
    SendStatus nat
  | SendText nat string
  | SendJson jsval
  | SendBytes "byte list"
  | Thrown error

section \<open>Validation and frame conversion\<close>

text \<open>
  \<^verbatim>\<open>objectToArray\<close> (lines 169-183): the key count must be \<open>256 * 3\<close>; the callback of \<^verbatim>\<open>map\<close>
  reads \<^verbatim>\<open>frameObject[key]\<close> and throws at the first value that is not a number within 0 and
  255.
\<close>

fun objectToArray_map :: "jsval \<Rightarrow> string list \<Rightarrow> error + rat list" where
  "objectToArray_map frameObject [] = Inr []"
| "objectToArray_map frameObject (key # keys) =
     (case property frameObject key of
        Inl e \<Rightarrow> Inl e
      | Inr (JNumber v) \<Rightarrow>
          (if v < 0 \<or> v > 255
           then Inl (Error (''Invalid value at key '' @ key @ ''. Expected a number between 0 and 255.''))
           else (case objectToArray_map frameObject keys of
                   Inl e \<Rightarrow> Inl e
                 | Inr vs \<Rightarrow> Inr (v # vs)))
      | Inr _ \<Rightarrow> Inl (Error (''Invalid value at key '' @ key @ ''. Expected a number between 0 and 255.'')))"

text \<open>\<^verbatim>\<open>new Uint8Array(numbers)\<close>: each number is truncated towards zero and wrapped to 8 bits.\<close>

definition ToUint8 :: "rat \<Rightarrow> byte" where
  "ToUint8 v = word_of_int (if 0 \<le> v then floor v else ceiling v)"

definition Uint8Array :: "rat list \<Rightarrow> byte list" where
  "Uint8Array vs = map ToUint8 vs"

definition objectToArray :: "jsval \<Rightarrow> error + byte list" where
  "objectToArray frameObject =
     (case Object_keys frameObject of
        Inl e \<Rightarrow> Inl e
      | Inr keys \<Rightarrow>
          (let arrayLength = length keys
           in case assertTrue (arrayLength = 256 * 3) ''Invalid frame length. Expected 256*3.'' of
                Inl e \<Rightarrow> Inl e
              | Inr _ \<Rightarrow>
                  (case objectToArray_map frameObject keys of
                     Inl e \<Rightarrow> Inl e
                   | Inr frameArray \<Rightarrow> Inr (Uint8Array frameArray))))"

text \<open>
  \<^verbatim>\<open>verifyAnimationJson\<close> (lines 262-280). \<open>verify_frames\<close> is the \<^verbatim>\<open>for\<close> loop of lines 272-274
  over its counters: \<^verbatim>\<open>animation.frames[i].length\<close> is the property \<^verbatim>\<open>length\<close> of the frame.
  \<open>verify_try\<close> is the body of the \<^verbatim>\<open>try\<close> block, \<open>verify_callback\<close> the arrow function handed to
  \<^verbatim>\<open>forEach\<close>: it returns the caught error, or \<^verbatim>\<open>undefined\<close> (\<open>None\<close>). \<open>forEach\<close> calls the
  callback on every element and drops what it returns; the function then returns \<^verbatim>\<open>true\<close>.
\<close>

fun verify_frames :: "jsval \<Rightarrow> nat list \<Rightarrow> error + unit" where
  "verify_frames fs [] = Inr ()"
| "verify_frames fs (i # rest) =
     (case element fs i of
        Inl e \<Rightarrow> Inl e
      | Inr frameObject \<Rightarrow>
          (case property frameObject ''length'' of
             Inl e \<Rightarrow> Inl e
           | Inr len \<Rightarrow>
               (case assertTrue (len = JNumber 256)
                       (string_of_nat i @ ''th entry length in color array frame list != 256'') of
                  Inl e \<Rightarrow> Inl e
                | Inr _ \<Rightarrow> verify_frames fs rest)))"

definition verify_try :: "engine \<Rightarrow> AnimationState option \<Rightarrow> error + unit" where
  "verify_try eng entry =
     (case assertTrue (entry \<noteq> None) ''given var is null'' of
        Inl e \<Rightarrow> Inl e
      | Inr _ \<Rightarrow>
     (case entry of
        None \<Rightarrow> Inl (TypeError ''Cannot read properties of null (reading animationID)'')
      | Some animation \<Rightarrow>
     (case assertTrue (not_undefined (state_animationID animation)) ''name is undefined'' of
        Inl e \<Rightarrow> Inl e
      | Inr _ \<Rightarrow>
     (case assertTrue (not_undefined (state_frameDuration animation)) ''frame duration is undefined'' of
        Inl e \<Rightarrow> Inl e
      | Inr _ \<Rightarrow>
     (case assertTrue (not_undefined (state_repeatCount animation)) ''repeat count is undefined'' of
        Inl e \<Rightarrow> Inl e
      | Inr _ \<Rightarrow>
     (case assertTrue (not_undefined (frames animation)) ''frame list is undefined'' of
        Inl e \<Rightarrow> Inl e
      | Inr _ \<Rightarrow>
     (case property (frames animation) ''length'' of
        Inl e \<Rightarrow> Inl e
      | Inr frameListLength \<Rightarrow>
     (case ToNumber eng frameListLength of
        Inl e \<Rightarrow> Inl e
      | Inr limit \<Rightarrow>
     (case assertTrue (index_below 0 limit) ''frame list has no entries'' of
        Inl e \<Rightarrow> Inl e
      | Inr _ \<Rightarrow>
          verify_frames (frames animation) (loop_indices limit (frames animation)))))))))))"

definition verify_callback :: "engine \<Rightarrow> AnimationState option \<Rightarrow> error option" where
  "verify_callback eng entry = (case verify_try eng entry of Inl err \<Rightarrow> Some err | Inr _ \<Rightarrow> None)"

primrec forEach :: "('a \<Rightarrow> 'b) \<Rightarrow> 'a list \<Rightarrow> unit" where
  "forEach callback [] = ()"
| "forEach callback (x # xs) = (case callback x of _ \<Rightarrow> forEach callback xs)"

definition verifyAnimationJson :: "engine \<Rightarrow> AnimationState option list \<Rightarrow> error + bool" where
  "verifyAnimationJson eng input = (case forEach (verify_callback eng) input of () \<Rightarrow> Inr True)"

section \<open>The route handlers\<close>

text \<open>
  \<^verbatim>\<open>POST /data\<close> (lines 195-247). \<open>log_first_animation\<close> is the logging of lines 207-212: it
  reads \<^verbatim>\<open>newAnimationState[0]\<close> and concatenates its identifier, duration, repeat count and
  \<^verbatim>\<open>frames.length\<close> to a text, in that order; each of the four conversions can throw.
  \<open>build_frames\<close> is the loop over \<open>j\<close> (lines 221-228) over its counters, \<open>build_animations\<close> the
  loop over \<open>i\<close> (lines 217-231), where the comparison \<^verbatim>\<open>j < currentAnimation.frames.length\<close>
  converts the length to a number; both loops work on the local \<^verbatim>\<open>newMetadata\<close>,
  \<^verbatim>\<open>newAnimationData\<close> and \<^verbatim>\<open>frameOrder\<close> (here \<open>order\<close>), and an exception leaves them behind.
\<close>

definition log_first_animation :: "engine \<Rightarrow> AnimationState option list \<Rightarrow> error + unit" where
  "log_first_animation eng newAnimationState =
     (case nth_js newAnimationState 0 of
        None \<Rightarrow> Inl (TypeError ''Cannot read properties of undefined (reading animationID)'')
      | Some None \<Rightarrow> Inl (TypeError ''Cannot read properties of null (reading animationID)'')
      | Some (Some first) \<Rightarrow>
     (case ToString eng (state_animationID first) of
        Inl e \<Rightarrow> Inl e
      | Inr id_text \<Rightarrow>
     (case ToString eng (state_frameDuration first) of
        Inl e \<Rightarrow> Inl e
      | Inr duration_text \<Rightarrow>
     (case ToString eng (state_repeatCount first) of
        Inl e \<Rightarrow> Inl e
      | Inr repeat_text \<Rightarrow>
     (case property (frames first) ''length'' of
        Inl e \<Rightarrow> Inl e
      | Inr frameCount \<Rightarrow>
     (case ToString eng frameCount of
        Inl e \<Rightarrow> Inl e
      | Inr count_text \<Rightarrow> Inr ()))))))"

fun build_frames ::
  "nat \<Rightarrow> jsval \<Rightarrow> jsval \<Rightarrow> nat list \<Rightarrow> string list \<Rightarrow> Frame list \<Rightarrow> draws \<Rightarrow>
   (error + string list \<times> Frame list) \<times> draws" where
  "build_frames idlen aid fs [] order newAnimationData rs =
     (Inr (order, newAnimationData), rs)"
| "build_frames idlen aid fs (j # rest) order newAnimationData rs =
     (case element fs j of
        Inl e \<Rightarrow> (Inl e, rs)
      | Inr frameObject \<Rightarrow>
          (case objectToArray frameObject of
             Inl e \<Rightarrow> (Inl e, rs)
           | Inr frameArray \<Rightarrow>
               (case genFrameID idlen rs of
                  (Inl e, rs') \<Rightarrow> (Inl e, rs')
                | (Inr fid, rs') \<Rightarrow>
                    (case new_Frame (JString fid) aid frameArray of
                       Inl e \<Rightarrow> (Inl e, rs')
                     | Inr frame \<Rightarrow>
                         build_frames idlen aid fs rest (order @ [fid])
                           (newAnimationData @ [frame]) rs'))))"

fun build_animations ::
  "engine \<Rightarrow> nat \<Rightarrow> AnimationState option list \<Rightarrow> Metadata list \<Rightarrow> Frame list \<Rightarrow> draws \<Rightarrow>
   (error + Metadata list \<times> Frame list) \<times> draws" where
  "build_animations eng idlen [] newMetadata newAnimationData rs =
     (Inr (newMetadata, newAnimationData), rs)"
| "build_animations eng idlen (None # rest) newMetadata newAnimationData rs =
     (Inl (TypeError ''Cannot read properties of null (reading animationID)''), rs)"
| "build_animations eng idlen (Some currentAnimation # rest) newMetadata newAnimationData rs =
     (case property (frames currentAnimation) ''length'' of
        Inl e \<Rightarrow> (Inl e, rs)
      | Inr frameCount \<Rightarrow>
          (case ToNumber eng frameCount of
             Inl e \<Rightarrow> (Inl e, rs)
           | Inr limit \<Rightarrow>
               (case build_frames idlen (state_animationID currentAnimation)
                       (frames currentAnimation)
                       (loop_indices limit (frames currentAnimation)) [] newAnimationData rs of
                  (Inl e, rs') \<Rightarrow> (Inl e, rs')
                | (Inr (order, newAnimationData'), rs') \<Rightarrow>
                    build_animations eng idlen rest
                      (newMetadata @
                       [\<lparr>animationID = state_animationID currentAnimation,
                         frameDuration = state_frameDuration currentAnimation,
                         repeatCount = state_repeatCount currentAnimation,
                         totalFrames = frameCount,
                         frameOrder = order\<rparr>])
                      newAnimationData' rs')))"

text \<open>
  \<^verbatim>\<open>pushAnimationCacheToMongo\<close> (lines 78-89): one \<^verbatim>\<open>insertFrame\<close> per cached frame, each in its
  own \<^verbatim>\<open>try\<close>, so a failed insert is logged and the loop goes on. The log of line 86 is a
  template string of the frame's identifier and of its animation's: a conversion that
  throws there ends the function with that exception (\<open>Some\<close>).
\<close>

fun pushAnimationCacheToMongo ::
  "engine \<Rightarrow> 's db \<Rightarrow> Frame list \<Rightarrow> 's \<Rightarrow> error option \<times> 's" where
  "pushAnimationCacheToMongo eng ops [] s = (None, s)"
| "pushAnimationCacheToMongo eng ops (frame # rest) s =
     (case insertFrame ops (frame_animationID frame) (frameID frame) (data frame) s of
        (Inr _, s') \<Rightarrow> pushAnimationCacheToMongo eng ops rest s'
      | (Inl error, s') \<Rightarrow>
          (case ToString eng (frameID frame) of
             Inl e \<Rightarrow> (Some e, s')
           | Inr id_text \<Rightarrow>
               (case ToString eng (frame_animationID frame) of
                  Inl e \<Rightarrow> (Some e, s')
                | Inr animation_text \<Rightarrow> pushAnimationCacheToMongo eng ops rest s')))"

text \<open>
  The handler. An exception outside the final \<^verbatim>\<open>try\<close> rejects the handler's promise: no
  status is sent (\<open>Thrown\<close>). The two caches are assigned at lines 232-233, after both loops.
  \<^verbatim>\<open>Promise.all\<close> starts both store operations and rejects when one of them does, which the
  \<^verbatim>\<open>catch\<close> answers with 501. The two are laid out here one after the other, the metadata
  first; the caches and the status do not depend on how the store interleaves them.
\<close>

definition post_data ::
  "engine \<Rightarrow> 's db \<Rightarrow> nat \<Rightarrow> AnimationState option list \<Rightarrow> 's world \<Rightarrow> response \<times> 's world" where
  "post_data eng ops FRAME_ID_LENGTH newAnimationState w =
     (let passed = verifyAnimationJson eng newAnimationState
      in if passed \<noteq> Inr True then (SendStatus 500, w)
         else
           (case log_first_animation eng newAnimationState of
              Inl e \<Rightarrow> (Thrown e, w)
            | Inr _ \<Rightarrow>
                (case build_animations eng FRAME_ID_LENGTH newAnimationState [] [] (random w) of
                   (Inl e, rs) \<Rightarrow> (Thrown e, w\<lparr>random := rs\<rparr>)
                 | (Inr (newMetadata, newAnimationData), rs) \<Rightarrow>
                     (let w1 = w\<lparr>metadataCache := newMetadata,
                                 animationCache := newAnimationData,
                                 random := rs\<rparr>
                      in case replaceMetadataArray ops (metadataCache w1) (store w1) of
                           (replaced, s1) \<Rightarrow>
                             (case pushAnimationCacheToMongo eng ops (animationCache w1) s1 of
                                (pushed, s2) \<Rightarrow>
                                  (case replaced of
                                     Inl err \<Rightarrow> SendStatus 501
                                   | Inr _ \<Rightarrow>
                                       (case pushed of
                                          Some err \<Rightarrow> SendStatus 501
                                        | None \<Rightarrow> SendStatus 200),
                                   w1\<lparr>store := s2\<rparr>))))))"

text \<open>
  \<^verbatim>\<open>GET /metadata\<close> (lines 133-142): the two nested \<^verbatim>\<open>forEach\<close> assert the length of every
  frame identifier, then \<^verbatim>\<open>res.json(metadataCache)\<close> sends the cache itself. The handler is
  synchronous, so an assertion that fails reaches the framework (\<open>Thrown\<close>).
\<close>

fun check_frameOrder :: "nat \<Rightarrow> string list \<Rightarrow> error + unit" where
  "check_frameOrder FRAME_ID_LENGTH [] = Inr ()"
| "check_frameOrder FRAME_ID_LENGTH (fid # rest) =
     (case assertTrue (length fid = FRAME_ID_LENGTH)
             (''Frame ID '' @ fid @ '' is not the correct length'') of
        Inl e \<Rightarrow> Inl e
      | Inr _ \<Rightarrow> check_frameOrder FRAME_ID_LENGTH rest)"

fun check_metadataCache :: "nat \<Rightarrow> Metadata list \<Rightarrow> error + unit" where
  "check_metadataCache FRAME_ID_LENGTH [] = Inr ()"
| "check_metadataCache FRAME_ID_LENGTH (metadata # rest) =
     (case check_frameOrder FRAME_ID_LENGTH (frameOrder metadata) of
        Inl e \<Rightarrow> Inl e
      | Inr _ \<Rightarrow> check_metadataCache FRAME_ID_LENGTH rest)"

text \<open>
  Modelled from the spec: the JSON form of a \<^verbatim>\<open>Metadata\<close> object (the class is not among the
  sources): its five fields of section 3 under their own names. \<^verbatim>\<open>JSON.stringify\<close> leaves out
  a field whose value is \<^verbatim>\<open>undefined\<close>.
\<close>

definition Metadata_json :: "Metadata \<Rightarrow> jsval" where
  "Metadata_json m =
     JObject (filter (\<lambda>field. snd field \<noteq> JUndefined)
       [(''animationID'', animationID m),
        (''frameDuration'', frameDuration m),
        (''repeatCount'', repeatCount m),
        (''totalFrames'', totalFrames m),
        (''frameOrder'', JArray (map JString (frameOrder m)))])"

definition get_metadata :: "nat \<Rightarrow> 's world \<Rightarrow> response" where
  "get_metadata FRAME_ID_LENGTH w =
     (case check_metadataCache FRAME_ID_LENGTH (metadataCache w) of
        Inl e \<Rightarrow> Thrown e
      | Inr _ \<Rightarrow> SendJson (JArray (map Metadata_json (metadataCache w))))"

text \<open>
  \<^verbatim>\<open>fetchMetadataFromServer\<close> (client utilities, lines 142-152), on the response of the
  server: \<^verbatim>\<open>response.ok\<close> is a status from 200 to 299, \<^verbatim>\<open>res.json\<close> and \<^verbatim>\<open>res.send\<close> answer 200,
  the framework answers an exception of a synchronous handler with 500; the result is
  \<^verbatim>\<open>data.metadata\<close>.
\<close>

fun response_status :: "response \<Rightarrow> nat" where
  "response_status (SendStatus n) = n"
| "response_status (SendText n body) = n"
| "response_status (SendJson d) = 200"
| "response_status (SendBytes b) = 200"
| "response_status (Thrown e) = 500"

definition fetchMetadataFromServer :: "response \<Rightarrow> error + jsval" where
  "fetchMetadataFromServer response =
     (if \<not> (200 \<le> response_status response \<and> response_status response \<le> 299)
      then Inl (Error (''HTTP error! status: '' @ string_of_nat (response_status response)))
      else (case response of
              SendJson d \<Rightarrow> property d ''metadata''
            | _ \<Rightarrow> Inl (SyntaxError ''Unexpected token in JSON'')))"

text \<open>
  \<^verbatim>\<open>GET /frameData/:frameId\<close> (lines 145-167): the frame is read with \<^verbatim>\<open>fetchFrame\<close> of the
  store on every request.
\<close>

definition get_frameData :: "'s db \<Rightarrow> string \<Rightarrow> 's world \<Rightarrow> response \<times> 's world" where
  "get_frameData ops frameId w =
     (if frameId = [] then (SendText 400 ''Frame ID is required.'', w)
      else (case fetchFrame ops (JString frameId) (store w) of
              (Inl e, s') \<Rightarrow> (SendText 500 ''Internal Server Error'', w\<lparr>store := s'\<rparr>)
            | (Inr None, s') \<Rightarrow> (SendText 404 ''Frame not found.'', w\<lparr>store := s'\<rparr>)
            | (Inr (Some frame), s') \<Rightarrow> (SendBytes frame, w\<lparr>store := s'\<rparr>)))"

section \<open>Initialisation\<close>

text \<open>
  \<^verbatim>\<open>connectToDbAndInitCache\<close> (lines 29-75). \<^verbatim>\<open>testMetadata\<close> and \<^verbatim>\<open>testAnimationData\<close>
  (\<^verbatim>\<open>./test/testData\<close>) are not among the sources and are parameters: the seed metadata, and
  the value of \<^verbatim>\<open>testAnimationData[animationID][j]\<close>, which throws when the table has no entry
  for the animation. \<open>frameOrder_at\<close> is \<^verbatim>\<open>frameOrder[j]\<close>.

  \<open>seed_frames\<close> and \<open>seed_animations\<close> are the loops of lines 47-56, \<open>load_frames\<close> and
  \<open>load_animations\<close> those of lines 62-72: each frame is added to \<^verbatim>\<open>animationCache\<close> as soon as
  it is fetched. The logs of lines 49, 53, 64 and 70 and the message of line 68, which is
  built before \<^verbatim>\<open>assertTrue\<close> is called, convert the animation's identifier to a text and
  throw when that conversion does. The inner loops compare the counter with
  \<^verbatim>\<open>totalFrames\<close>, whatever the store gave for it; under an infinite limit they end only by
  an exception, so they are partial functions, and \<open>None\<close> is an initialisation that does
  not return. The result is otherwise the exception that ended the function, if any.
\<close>

definition frameOrder_at :: "Metadata \<Rightarrow> nat \<Rightarrow> jsval" where
  "frameOrder_at metadata j =
     (case nth_js (frameOrder metadata) j of None \<Rightarrow> JUndefined | Some fid \<Rightarrow> JString fid)"

partial_function (option) seed_frames ::
  "engine \<Rightarrow> 's db \<Rightarrow> (jsval \<Rightarrow> nat \<Rightarrow> error + byte list) \<Rightarrow> Metadata \<Rightarrow> jsnumber \<Rightarrow> nat \<Rightarrow> 's \<Rightarrow>
   (error option \<times> 's) option" where
  "seed_frames eng ops testAnimationData currentMetadata limit j s =
     (if index_below j limit then
        (case testAnimationData (animationID currentMetadata) j of
           Inl e \<Rightarrow> Some (Some e, s)
         | Inr frameData \<Rightarrow>
             (case ToString eng (frameOrder_at currentMetadata j) of
                Inl e \<Rightarrow> Some (Some e, s)
              | Inr id_text \<Rightarrow>
                  (case ToString eng (animationID currentMetadata) of
                     Inl e \<Rightarrow> Some (Some e, s)
                   | Inr animation_text \<Rightarrow>
                       (case insertFrame ops (animationID currentMetadata)
                               (frameOrder_at currentMetadata j) frameData s of
                          (Inl e, s') \<Rightarrow> Some (Some e, s')
                        | (Inr _, s') \<Rightarrow>
                            seed_frames eng ops testAnimationData currentMetadata limit (j + 1) s'))))
      else Some (None, s))"

declare seed_frames.simps [code]

fun seed_animations ::
  "engine \<Rightarrow> 's db \<Rightarrow> (jsval \<Rightarrow> nat \<Rightarrow> error + byte list) \<Rightarrow> Metadata list \<Rightarrow> 's \<Rightarrow>
   (error option \<times> 's) option" where
  "seed_animations eng ops testAnimationData [] s = Some (None, s)"
| "seed_animations eng ops testAnimationData (currentMetadata # rest) s =
     (case ToString eng (animationID currentMetadata) of
        Inl e \<Rightarrow> Some (Some e, s)
      | Inr animation_text \<Rightarrow>
          (case ToNumber eng (totalFrames currentMetadata) of
             Inl e \<Rightarrow> Some (Some e, s)
           | Inr limit \<Rightarrow>
               (case seed_frames eng ops testAnimationData currentMetadata limit 0 s of
                  None \<Rightarrow> None
                | Some (Some e, s') \<Rightarrow> Some (Some e, s')
                | Some (None, s') \<Rightarrow> seed_animations eng ops testAnimationData rest s')))"

partial_function (option) load_frames ::
  "engine \<Rightarrow> 's db \<Rightarrow> Metadata \<Rightarrow> jsnumber \<Rightarrow> nat \<Rightarrow> 's world \<Rightarrow> (error option \<times> 's world) option" where
  "load_frames eng ops currentMetadata limit j w =
     (if index_below j limit then
        (case fetchFrame ops (frameOrder_at currentMetadata j) (store w) of
           (Inl e, s') \<Rightarrow> Some (Some e, w\<lparr>store := s'\<rparr>)
         | (Inr frameData, s') \<Rightarrow>
             (case ToString eng (animationID currentMetadata) of
                Inl e \<Rightarrow> Some (Some e, w\<lparr>store := s'\<rparr>)
              | Inr animation_text \<Rightarrow>
                  (case frameData of
                     None \<Rightarrow>
                       Some (Some (Error (''Could not find animation for name: '' @ animation_text @
                                          '' and frame number: '' @ string_of_nat j)),
                             w\<lparr>store := s'\<rparr>)
                   | Some bytes \<Rightarrow>
                       (case new_Frame (frameOrder_at currentMetadata j)
                               (animationID currentMetadata) bytes of
                          Inl e \<Rightarrow> Some (Some e, w\<lparr>store := s'\<rparr>)
                        | Inr frame \<Rightarrow>
                            (case ToString eng (animationID currentMetadata) of
                               Inl e \<Rightarrow>
                                 Some (Some e, w\<lparr>store := s',
                                                 animationCache := animationCache w @ [frame]\<rparr>)
                             | Inr added_text \<Rightarrow>
                                 load_frames eng ops currentMetadata limit (j + 1)
                                   (w\<lparr>store := s',
                                     animationCache := animationCache w @ [frame]\<rparr>))))))
      else Some (None, w))"

declare load_frames.simps [code]

fun load_animations ::
  "engine \<Rightarrow> 's db \<Rightarrow> Metadata list \<Rightarrow> 's world \<Rightarrow> (error option \<times> 's world) option" where
  "load_animations eng ops [] w = Some (None, w)"
| "load_animations eng ops (currentMetadata # rest) w =
     (case ToString eng (animationID currentMetadata) of
        Inl e \<Rightarrow> Some (Some e, w)
      | Inr animation_text \<Rightarrow>
          (case ToNumber eng (totalFrames currentMetadata) of
             Inl e \<Rightarrow> Some (Some e, w)
           | Inr limit \<Rightarrow>
               (case load_frames eng ops currentMetadata limit 0 w of
                  None \<Rightarrow> None
                | Some (Some e, w') \<Rightarrow> Some (Some e, w')
                | Some (None, w') \<Rightarrow> load_animations eng ops rest w')))"

definition connectToDbAndInitCache ::
  "engine \<Rightarrow> 's db \<Rightarrow> Metadata list \<Rightarrow> (jsval \<Rightarrow> nat \<Rightarrow> error + byte list) \<Rightarrow> 's world \<Rightarrow>
   (error option \<times> 's world) option" where
  "connectToDbAndInitCache eng ops testMetadata testAnimationData w =
     (case connectToMongo ops (store w) of
        (Inl e, s0) \<Rightarrow> Some (Some e, w\<lparr>store := s0\<rparr>)
      | (Inr _, s0) \<Rightarrow>
     (case fetchMetadataArray ops s0 of
        (Inl e, s1) \<Rightarrow> Some (Some e, w\<lparr>store := s1\<rparr>)
      | (Inr metadata, s1) \<Rightarrow>
          (if length metadata = 0 then
             (case replaceMetadataArray ops testMetadata s1 of
                (Inl e, s2) \<Rightarrow> Some (Some e, w\<lparr>store := s2\<rparr>)
              | (Inr _, s2) \<Rightarrow>
             (case fetchMetadataArray ops s2 of
                (Inl e, s3) \<Rightarrow> Some (Some e, w\<lparr>store := s3\<rparr>)
              | (Inr inserted, s3) \<Rightarrow>
             (case seed_animations eng ops testAnimationData inserted s3 of
                None \<Rightarrow> None
              | Some (Some e, s4) \<Rightarrow> Some (Some e, w\<lparr>metadataCache := inserted, store := s4\<rparr>)
              | Some (None, s4) \<Rightarrow>
                  load_animations eng ops inserted (w\<lparr>metadataCache := inserted, store := s4\<rparr>))))
           else load_animations eng ops metadata (w\<lparr>metadataCache := metadata, store := s1\<rparr>))))"

section \<open>A store in memory\<close>

text \<open>
  Modelled from the spec: the persisted store of section 6, a document store that keeps the
  metadata array and the frames under their identifiers; \<^verbatim>\<open>insertFrame\<close> replaces a frame
  that has the same identifier and no operation fails. It instantiates the parameter above
  where a statement is about what the store holds.
\<close>

record mem_store =
  stored_metadata :: "Metadata list"
  stored_frames :: "(jsval \<times> jsval \<times> byte list) list"

definition mem_db :: "mem_store db" where
  "mem_db =
     \<lparr>connectToMongo = (\<lambda>s. (Inr (), s)),
      fetchMetadataArray = (\<lambda>s. (Inr (stored_metadata s), s)),
      replaceMetadataArray = (\<lambda>m s. (Inr (), s\<lparr>stored_metadata := m\<rparr>)),
      fetchFrame = (\<lambda>fid s. (Inr (map_option snd (map_of (stored_frames s) fid)), s)),
      insertFrame = (\<lambda>aid fid bytes s.
        (Inr (), s\<lparr>stored_frames :=
                     (fid, aid, bytes) # filter (\<lambda>p. fst p \<noteq> fid) (stored_frames s)\<rparr>))\<rparr>"

text \<open>
  The same store when the metadata collection cannot be written, and when no frame can.
\<close>

definition failing_db :: "mem_store db" where
  "failing_db =
     mem_db\<lparr>replaceMetadataArray := (\<lambda>m s. (Inl (Error ''metadata write failed''), s))\<rparr>"

definition frames_failing_db :: "mem_store db" where
  "frames_failing_db =
     mem_db\<lparr>insertFrame := (\<lambda>aid fid bytes s. (Inl (Error ''frame write failed''), s))\<rparr>"

section \<open>What the handlers accept and what they build\<close>

text \<open>
  The frames that \<open>objectToArray\<close> lets through, stated on the frame itself: 768 keys, every
  value a number from 0 to 255. An entry of the body is accepted when its \<^verbatim>\<open>frames\<close> is an
  array of such frames. A value is \<open>printable\<close> when its conversion to a text does not
  throw, and \<open>first_printable\<close> says so of the identifier, the duration and the repeat count
  of the first entry, the three that the handler logs. These are conditions under which
  the handler of \<^verbatim>\<open>POST /data\<close> reaches the assignment of the caches.
\<close>

definition accepted_value :: "jsval \<Rightarrow> bool" where
  "accepted_value v = (case v of JNumber r \<Rightarrow> 0 \<le> r \<and> r \<le> 255 | _ \<Rightarrow> False)"

definition frame_accepted :: "jsval \<Rightarrow> bool" where
  "frame_accepted frameObject =
     (case Object_keys frameObject of
        Inl e \<Rightarrow> False
      | Inr keys \<Rightarrow>
          length keys = 768 \<and>
          list_all (\<lambda>key. case property frameObject key of
                            Inl e \<Rightarrow> False
                          | Inr v \<Rightarrow> accepted_value v) keys)"

definition frame_list :: "AnimationState option \<Rightarrow> jsval list option" where
  "frame_list entry =
     (case entry of
        None \<Rightarrow> None
      | Some animation \<Rightarrow> (case frames animation of JArray fs \<Rightarrow> Some fs | _ \<Rightarrow> None))"

definition entry_accepted :: "AnimationState option \<Rightarrow> bool" where
  "entry_accepted entry =
     (case frame_list entry of None \<Rightarrow> False | Some fs \<Rightarrow> list_all frame_accepted fs)"

definition printable :: "engine \<Rightarrow> jsval \<Rightarrow> bool" where
  "printable eng v = (case ToString eng v of Inl e \<Rightarrow> False | Inr text \<Rightarrow> True)"

definition first_printable :: "engine \<Rightarrow> AnimationState option list \<Rightarrow> bool" where
  "first_printable eng body =
     (case nth_js body 0 of
        Some (Some first) \<Rightarrow>
          printable eng (state_animationID first) \<and>
          printable eng (state_frameDuration first) \<and>
          printable eng (state_repeatCount first)
      | _ \<Rightarrow> False)"

text \<open>
  The bytes of an accepted frame, the random supply after \<open>n\<close> identifiers, and the frames
  and metadata that the loops append for a body of accepted entries: \<open>made_frames\<close> pairs
  the identifiers of one animation with its frames, \<open>built_metadata\<close> and \<open>built_frames\<close>
  follow the body entry by entry.
\<close>

definition frame_bytes :: "jsval \<Rightarrow> byte list" where
  "frame_bytes frameObject = (case objectToArray frameObject of Inl e \<Rightarrow> [] | Inr bytes \<Rightarrow> bytes)"

fun drawn :: "nat \<Rightarrow> nat \<Rightarrow> draws \<Rightarrow> draws" where
  "drawn len 0 rs = rs"
| "drawn len (Suc n) rs = drawn len n (snd (genFrameID len rs))"

definition made_frames :: "jsval \<Rightarrow> string list \<Rightarrow> jsval list \<Rightarrow> Frame list" where
  "made_frames aid ids fs =
     map (\<lambda>(fid, frameObject).
            \<lparr>frameID = JString fid, frame_animationID = aid, data = frame_bytes frameObject\<rparr>)
       (zip ids fs)"

definition frame_count :: "AnimationState option \<Rightarrow> nat" where
  "frame_count entry = (case frame_list entry of None \<Rightarrow> 0 | Some fs \<Rightarrow> length fs)"

definition total_frames :: "AnimationState option list \<Rightarrow> nat" where
  "total_frames body = sum_list (map frame_count body)"

fun built_metadata :: "nat \<Rightarrow> AnimationState option list \<Rightarrow> draws \<Rightarrow> Metadata list" where
  "built_metadata len [] rs = []"
| "built_metadata len (entry # rest) rs =
     (case entry of
        None \<Rightarrow> []
      | Some animation \<Rightarrow>
          \<lparr>animationID = state_animationID animation,
           frameDuration = state_frameDuration animation,
           repeatCount = state_repeatCount animation,
           totalFrames = JNumber (of_nat (frame_count entry)),
           frameOrder = generated_ids len (frame_count entry) rs\<rparr> #
          built_metadata len rest (drawn len (frame_count entry) rs))"

fun built_frames :: "nat \<Rightarrow> AnimationState option list \<Rightarrow> draws \<Rightarrow> Frame list" where
  "built_frames len [] rs = []"
| "built_frames len (entry # rest) rs =
     (case entry of
        None \<Rightarrow> []
      | Some animation \<Rightarrow>
          (case frame_list entry of
             None \<Rightarrow> []
           | Some fs \<Rightarrow>
               made_frames (state_animationID animation) (generated_ids len (length fs) rs) fs @
               built_frames len rest (drawn len (length fs) rs)))"

section \<open>The validation rules as the specification words them\<close>

text \<open>
  Section 4.4 of the specification, word for word, to be compared with what the code
  accepts: a frame has exactly 256 elements, each an integer from 0 to 255; an entry is
  non-null, defines its four fields (only \<^verbatim>\<open>undefined\<close> counts as missing) and has a
  non-empty frame list.
\<close>

definition spec_frame_valid :: "jsval \<Rightarrow> bool" where
  "spec_frame_valid frameObject =
     (case Object_keys frameObject of
        Inl e \<Rightarrow> False
      | Inr keys \<Rightarrow>
          length keys = 256 \<and>
          list_all (\<lambda>key. case property frameObject key of
                            Inr (JNumber r) \<Rightarrow> of_int (floor r) = r \<and> 0 \<le> r \<and> r \<le> 255
                          | _ \<Rightarrow> False) keys)"

definition spec_entry_valid :: "AnimationState option \<Rightarrow> bool" where
  "spec_entry_valid entry =
     (case entry of
        None \<Rightarrow> False
      | Some animation \<Rightarrow>
          state_animationID animation \<noteq> JUndefined \<and>
          state_frameDuration animation \<noteq> JUndefined \<and>
          state_repeatCount animation \<noteq> JUndefined \<and>
          (case frames animation of
             JArray fs \<Rightarrow> fs \<noteq> [] \<and> list_all spec_frame_valid fs
           | _ \<Rightarrow> False))"

definition spec_payload_valid :: "AnimationState option list \<Rightarrow> bool" where
  "spec_payload_valid body = list_all spec_entry_valid body"

section \<open>What a store in memory holds\<close>

text \<open>
  A frame identifier is \<open>stored\<close> when the store has a frame under it. A metadata entry is
  \<open>counted\<close> when its \<^verbatim>\<open>totalFrames\<close> is a number, and \<open>frame_limit\<close> is then the number of
  counters below it. A reference is a metadata entry with a counter; \<open>referenced\<close> lists, in
  the order of the loading loops, the references within \<^verbatim>\<open>totalFrames\<close>, and a reference
  \<open>resolves\<close> when the identifier at that place of \<^verbatim>\<open>frameOrder\<close> is stored. \<open>loaded_frame\<close> is
  the frame that loading builds for a reference, \<open>missing_message\<close> the message of line 68
  for it, and \<open>frames_sized\<close> says that every stored frame has 768 bytes.
\<close>

definition stored :: "mem_store \<Rightarrow> jsval \<Rightarrow> bool" where
  "stored s fid = (map_of (stored_frames s) fid \<noteq> None)"

definition counted :: "Metadata \<Rightarrow> bool" where
  "counted metadata = (case totalFrames metadata of JNumber r \<Rightarrow> True | _ \<Rightarrow> False)"

definition frame_limit :: "Metadata \<Rightarrow> nat" where
  "frame_limit metadata = (case totalFrames metadata of JNumber r \<Rightarrow> nat \<lceil>r\<rceil> | _ \<Rightarrow> 0)"

definition referenced :: "Metadata list \<Rightarrow> (Metadata \<times> nat) list" where
  "referenced mds =
     concat (map (\<lambda>metadata. map (\<lambda>j. (metadata, j)) [0..<frame_limit metadata]) mds)"

definition resolves :: "mem_store \<Rightarrow> Metadata \<times> nat \<Rightarrow> bool" where
  "resolves s ref = stored s (frameOrder_at (fst ref) (snd ref))"

definition loaded_frame :: "mem_store \<Rightarrow> Metadata \<times> nat \<Rightarrow> Frame" where
  "loaded_frame s ref =
     \<lparr>frameID = frameOrder_at (fst ref) (snd ref), frame_animationID = animationID (fst ref),
      data = (case map_of (stored_frames s) (frameOrder_at (fst ref) (snd ref)) of
                None \<Rightarrow> []
              | Some (aid, bytes) \<Rightarrow> bytes)\<rparr>"

definition missing_message :: "engine \<Rightarrow> Metadata \<times> nat \<Rightarrow> string" where
  "missing_message eng ref =
     ''Could not find animation for name: '' @
     (case ToString eng (animationID (fst ref)) of Inl e \<Rightarrow> [] | Inr text \<Rightarrow> text) @
     '' and frame number: '' @ string_of_nat (snd ref)"

definition frames_sized :: "mem_store \<Rightarrow> bool" where
  "frames_sized s = list_all (\<lambda>(fid, aid, bytes). length bytes = 768) (stored_frames s)"

section \<open>Example data\<close>

text \<open>
  An engine for the examples, which does what the language does on integers below
  \<open>10^21\<close> and on texts of decimal digits: it writes such a number in decimal, and reads
  such a text (the empty one as 0) as the number it writes; the examples convert no other
  number to a text and no other text to a number. A frame object with keys \<open>0\<close>
  to \<open>n - 1\<close> that all hold the number \<open>v\<close>, an animation entry with every field present and
  one with an empty frame list and nothing else, and process states: one with nothing
  cached or stored, one serving a single animation that is cached and stored, the same one
  right after a restart, and two whose stored metadata refers to a frame that the store
  lacks, as the second reference and as the first, and one whose stored metadata has an
  object with a property \<^verbatim>\<open>toString\<close> as identifier. \<open>zeros\<close> is a random supply whose draws
  are all 0, \<open>sixteenths\<close> one whose first sixteen draws select the
  hexadecimal digits in turn and whose later draws are 0.
\<close>

definition decimal_value :: "string \<Rightarrow> nat" where
  "decimal_value text = foldl (\<lambda>n c. 10 * n + (of_char c - 48)) 0 text"

definition plain_engine :: engine where
  "plain_engine =
     \<lparr>NumberToString =
        (\<lambda>r. if r < 0 then ''-'' @ string_of_nat (nat \<lfloor>- r\<rfloor>) else string_of_nat (nat \<lfloor>r\<rfloor>)),
      StringToNumber =
        (\<lambda>text. if set text \<subseteq> set ''0123456789'' then Finite (of_nat (decimal_value text))
                else NotANumber)\<rparr>"

definition solid_frame :: "nat \<Rightarrow> rat \<Rightarrow> jsval" where
  "solid_frame n v = JObject (map (\<lambda>k. (string_of_nat k, JNumber v)) [0..<n])"

definition animation_of :: "string \<Rightarrow> jsval list \<Rightarrow> AnimationState option" where
  "animation_of name fs =
     Some \<lparr>state_animationID = JString name, state_frameDuration = JNumber 100,
           state_repeatCount = JNumber 1, frames = JArray fs\<rparr>"

definition bare_animation :: "AnimationState option" where
  "bare_animation =
     Some \<lparr>state_animationID = JUndefined, state_frameDuration = JUndefined,
           state_repeatCount = JUndefined, frames = JArray []\<rparr>"

definition zeros :: draws where
  "zeros k = 0"

definition idle_world :: "mem_store world" where
  "idle_world =
     \<lparr>animationCache = [], metadataCache = [],
      store = \<lparr>stored_metadata = [], stored_frames = []\<rparr>, random = zeros\<rparr>"

definition example_metadata :: Metadata where
  "example_metadata =
     \<lparr>animationID = JString ''rainbow'', frameDuration = JNumber 100, repeatCount = JNumber 3,
      totalFrames = JNumber 1, frameOrder = [''0a1b2c'']\<rparr>"

definition example_frame :: Frame where
  "example_frame =
     \<lparr>frameID = JString ''0a1b2c'', frame_animationID = JString ''rainbow'',
      data = replicate 768 0\<rparr>"

definition serving_world :: "mem_store world" where
  "serving_world =
     \<lparr>animationCache = [example_frame], metadataCache = [example_metadata],
      store = \<lparr>stored_metadata = [example_metadata],
               stored_frames = [(JString ''0a1b2c'', JString ''rainbow'', replicate 768 0)]\<rparr>,
      random = zeros\<rparr>"

definition restart_world :: "mem_store world" where
  "restart_world = serving_world\<lparr>animationCache := [], metadataCache := []\<rparr>"

definition gap_metadata :: "string list \<Rightarrow> Metadata" where
  "gap_metadata order =
     \<lparr>animationID = JString ''rainbow'', frameDuration = JNumber 100, repeatCount = JNumber 3,
      totalFrames = JNumber 2, frameOrder = order\<rparr>"

definition gap_world :: "mem_store world" where
  "gap_world =
     \<lparr>animationCache = [], metadataCache = [],
      store = \<lparr>stored_metadata = [gap_metadata [''0a1b2c'', ''ffffff'']],
               stored_frames = [(JString ''0a1b2c'', JString ''rainbow'', replicate 768 0)]\<rparr>,
      random = zeros\<rparr>"

definition early_gap_world :: "mem_store world" where
  "early_gap_world =
     \<lparr>animationCache = [], metadataCache = [],
      store = \<lparr>stored_metadata = [gap_metadata [''ffffff'', ''0a1b2c'']],
               stored_frames = [(JString ''0a1b2c'', JString ''rainbow'', replicate 768 0)]\<rparr>,
      random = zeros\<rparr>"

definition odd_world :: "mem_store world" where
  "odd_world =
     \<lparr>animationCache = [], metadataCache = [],
      store = \<lparr>stored_metadata =
                 [\<lparr>animationID = JObject [(''toString'', JNumber 0)],
                   frameDuration = JNumber 100, repeatCount = JNumber 3,
                   totalFrames = JNumber 1, frameOrder = [''0a1b2c'']\<rparr>],
               stored_frames = [(JString ''0a1b2c'', JString ''rainbow'', replicate 768 0)]\<rparr>,
      random = zeros\<rparr>"

definition no_test_data :: "jsval \<Rightarrow> nat \<Rightarrow> error + byte list" where
  "no_test_data aid j = Inl (TypeError ''Cannot read properties of undefined'')"



definition two_frames :: "AnimationState option list" where
  "two_frames = [animation_of ''sunrise'' [solid_frame 768 0, solid_frame 768 255]]"

definition sixteenths :: draws where
  "sixteenths k = (if k < 16 then of_nat k / 16 else 0)"

section \<open>Properties\<close>

subsection \<open>The pixel buffer codec\<close>

declare get2Darray_cols.simps [simp del] get2Darray_rows.simps [simp del]

lemma get2Darray_cols_eq:
  "length row = IMAGE_PIXEL_LENGTH \<Longrightarrow> j \<le> IMAGE_PIXEL_LENGTH \<Longrightarrow>
   get2Darray_cols arr i j row =
     take j row @ map (\<lambda>c. triplet arr (i * IMAGE_PIXEL_LENGTH + c)) [j..<IMAGE_PIXEL_LENGTH]"
proof (induction arr i j row rule: get2Darray_cols.induct)
  case (1 arr i j row)
  show ?case
  proof (cases "j < IMAGE_PIXEL_LENGTH")
    case True
    let ?c = "[arr ! (3 * (i * IMAGE_PIXEL_LENGTH + j)), arr ! (3 * (i * IMAGE_PIXEL_LENGTH + j) + 1),
               arr ! (3 * (i * IMAGE_PIXEL_LENGTH + j) + 2)]"
    have ih: "get2Darray_cols arr i (j + 1) (row[j := ?c]) =
        take (j + 1) (row[j := ?c]) @
        map (\<lambda>c. triplet arr (i * IMAGE_PIXEL_LENGTH + c)) [j + 1..<IMAGE_PIXEL_LENGTH]"
      using "1.IH"[OF True refl] "1.prems" True by simp
    have tk: "take (j + 1) (row[j := ?c]) = take j row @ [?c]"
      using "1.prems" True by (simp add: take_Suc_conv_app_nth)
    have up: "[j..<IMAGE_PIXEL_LENGTH] = j # [j + 1..<IMAGE_PIXEL_LENGTH]"
      using True by (simp add: upt_conv_Cons)
    show ?thesis
      using True ih tk up
      by (subst get2Darray_cols.simps) (simp add: Let_def triplet_def)
  next
    case False
    then show ?thesis
      using "1.prems" by (subst get2Darray_cols.simps) simp
  qed
qed

lemma get2Darray_rows_eq:
  "length result = IMAGE_PIXEL_LENGTH \<Longrightarrow> i \<le> IMAGE_PIXEL_LENGTH \<Longrightarrow>
   (\<forall>k < IMAGE_PIXEL_LENGTH. length (result ! k) = IMAGE_PIXEL_LENGTH) \<Longrightarrow>
   get2Darray_rows arr i result =
     take i result @
     map (\<lambda>r. map (\<lambda>c. triplet arr (r * IMAGE_PIXEL_LENGTH + c)) [0..<IMAGE_PIXEL_LENGTH])
       [i..<IMAGE_PIXEL_LENGTH]"
proof (induction arr i result rule: get2Darray_rows.induct)
  case (1 arr i result)
  show ?case
  proof (cases "i < IMAGE_PIXEL_LENGTH")
    case True
    let ?row = "get2Darray_cols arr i 0 (result ! i)"
    have row: "?row = map (\<lambda>c. triplet arr (i * IMAGE_PIXEL_LENGTH + c)) [0..<IMAGE_PIXEL_LENGTH]"
      using "1.prems" True by (simp add: get2Darray_cols_eq)
    have lens: "\<forall>k < IMAGE_PIXEL_LENGTH. length (result[i := ?row] ! k) = IMAGE_PIXEL_LENGTH"
      using "1.prems" True by (auto simp: nth_list_update row)
    have ih: "get2Darray_rows arr (i + 1) (result[i := ?row]) =
        take (i + 1) (result[i := ?row]) @
        map (\<lambda>r. map (\<lambda>c. triplet arr (r * IMAGE_PIXEL_LENGTH + c)) [0..<IMAGE_PIXEL_LENGTH])
          [i + 1..<IMAGE_PIXEL_LENGTH]"
      using "1.IH"[OF True] "1.prems" True lens by simp
    have tk: "take (i + 1) (result[i := ?row]) = take i result @ [?row]"
      using "1.prems" True by (simp add: take_Suc_conv_app_nth)
    have up: "[i..<IMAGE_PIXEL_LENGTH] = i # [i + 1..<IMAGE_PIXEL_LENGTH]"
      using True by (simp add: upt_conv_Cons)
    show ?thesis
      using True ih tk up row
      by (subst get2Darray_rows.simps) simp
  next
    case False
    then show ?thesis
      using "1.prems" by (subst get2Darray_rows.simps) simp
  qed
qed

lemma concat_triplets:
  "3 * n \<le> length arr \<Longrightarrow> concat (map (triplet arr) [0..<n]) = take (3 * n) arr"
proof (induction n)
  case 0
  then show ?case by simp
next
  case (Suc n)
  have "take (3 * Suc n) arr = take (3 * n) arr @ triplet arr n"
    using Suc.prems
    by (simp add: triplet_def take_Suc_conv_app_nth numeral_3_eq_3)
  then show ?case using Suc by simp
qed

lemma concat_rows:
  "concat (map (\<lambda>r. map (\<lambda>c. f (r * w + c)) [0..<w]) [0..<m]) = map f [0..<m * w]"
proof (induction m)
  case 0
  then show ?case by simp
next
  case (Suc m)
  have "map f [0..<Suc m * w] = map f [0..<m * w] @ map f [m * w..<m * w + w]"
    by (metis add.commute le_add1 map_append mult_Suc upt_add_eq_append zero_le)
  moreover have "map f [m * w..<m * w + w] = map (\<lambda>c. f (m * w + c)) [0..<w]"
    by (rule nth_equalityI) auto
  ultimately show ?case using Suc by simp
qed


lemma get2Darray_ok:
  assumes "length arr = 768"
  shows "get2Darray arr =
    Inr (map (\<lambda>r. map (\<lambda>c. triplet arr (r * 16 + c)) [0..<16]) [0..<16])"
  using assms
  by (simp add: get2Darray_def assertTrue_def FRAME_PIXEL_COUNT_def get2Darray_rows_eq)
     (simp add: IMAGE_PIXEL_LENGTH_def)

text \<open>
  Claim C9. For every buffer of length exactly 768, \<open>get2Darray\<close> returns a grid of 16 rows
  of 16 cells whose cell at \<open>row\<close>, \<open>col\<close> is the triplet at flat index
  \<open>3 * (row * 16 + col)\<close>, and flattening that grid row by row gives the buffer back; for
  every buffer of any other length it fails with the length error.
\<close>

theorem get2Darray_roundtrip:
  "(length arr = 768 \<longrightarrow>
      (\<exists>g. get2Darray arr = Inr g \<and> length g = 16 \<and> (\<forall>row < 16. length (g ! row) = 16) \<and>
           (\<forall>row < 16. \<forall>col < 16.
              g ! row ! col =
                [arr ! (3 * (row * 16 + col)), arr ! (3 * (row * 16 + col) + 1),
                 arr ! (3 * (row * 16 + col) + 2)]) \<and>
           concat (concat g) = arr)) \<and>
   (length arr \<noteq> 768 \<longrightarrow> get2Darray arr = Inl (Error ''Array length needs to be 256*3''))"
proof (intro conjI impI)
  assume len: "length arr = 768"
  let ?g = "map (\<lambda>r. map (\<lambda>c. triplet arr (r * 16 + c)) [0..<16]) [0..<16]"
  have flat: "concat (concat ?g) = arr"
    using concat_rows[of "triplet arr" 16 16] concat_triplets[of 256 arr] len by simp
  have cells: "\<forall>row < 16. \<forall>col < 16.
      ?g ! row ! col =
        [arr ! (3 * (row * 16 + col)), arr ! (3 * (row * 16 + col) + 1),
         arr ! (3 * (row * 16 + col) + 2)]"
    by (simp add: triplet_def)
  show "\<exists>g. get2Darray arr = Inr g \<and> length g = 16 \<and> (\<forall>row < 16. length (g ! row) = 16) \<and>
           (\<forall>row < 16. \<forall>col < 16.
              g ! row ! col =
                [arr ! (3 * (row * 16 + col)), arr ! (3 * (row * 16 + col) + 1),
                 arr ! (3 * (row * 16 + col) + 2)]) \<and>
           concat (concat g) = arr"
    using get2Darray_ok[OF len] flat cells by simp
next
  assume "length arr \<noteq> 768"
  then show "get2Darray arr = Inl (Error ''Array length needs to be 256*3'')"
    by (simp add: get2Darray_def assertTrue_def FRAME_PIXEL_COUNT_def IMAGE_PIXEL_LENGTH_def)
qed

theorem get2Darray_roundtrip_witness:
  "(\<exists>g. get2Darray (map (\<lambda>k. k mod 256) [0..<768]) = Inr g \<and> length g = 16 \<and>
        length (g ! 2) = 16 \<and> g ! 2 ! 5 = [111, 112, 113] \<and>
        concat (concat g) = map (\<lambda>k. k mod 256) [0..<768]) \<and>
   get2Darray [1 :: nat, 2, 3] = Inl (Error ''Array length needs to be 256*3'')"
proof -
  let ?arr = "map (\<lambda>k. k mod 256) [0..<768]"
  have len: "length ?arr = 768" by simp
  from get2Darray_roundtrip[of ?arr] len obtain g where
    g: "get2Darray ?arr = Inr g" "length g = 16" "\<forall>row < 16. length (g ! row) = 16"
       "\<forall>row < 16. \<forall>col < 16.
          g ! row ! col =
            [?arr ! (3 * (row * 16 + col)), ?arr ! (3 * (row * 16 + col) + 1),
             ?arr ! (3 * (row * 16 + col) + 2)]"
       "concat (concat g) = ?arr"
    by blast
  have "g ! 2 ! 5 = [?arr ! 111, ?arr ! 112, ?arr ! 113]"
    using g(4) by simp
  then have cell: "g ! 2 ! 5 = [111, 112, 113]" by simp
  have bad: "get2Darray [1 :: nat, 2, 3] = Inl (Error ''Array length needs to be 256*3'')"
    using get2Darray_roundtrip[of "[1 :: nat, 2, 3]"] by simp
  show ?thesis using g cell bad by simp
qed

subsection \<open>Decimal keys\<close>

lemma digit_char_digit: "d < 10 \<Longrightarrow> digit_char d \<in> set ''0123456789''"
  unfolding digit_char_def by (rule nth_mem) simp

lemma string_of_nat_digits: "set (string_of_nat n) \<subseteq> set ''0123456789''"
proof (induction n rule: string_of_nat.induct)
  case (1 n)
  show ?case
  proof (cases "n < 10")
    case True
    then show ?thesis
      using digit_char_digit[of n] by (subst string_of_nat.simps) simp
  next
    case False
    then have "set (string_of_nat (n div 10)) \<subseteq> set ''0123456789''"
      using 1 by blast
    moreover have "digit_char (n mod 10) \<in> set ''0123456789''"
      by (rule digit_char_digit) simp
    ultimately show ?thesis using False by (subst string_of_nat.simps) simp
  qed
qed

lemma string_of_nat_not_metadata: "string_of_nat i \<noteq> ''metadata''"
proof
  assume "string_of_nat i = ''metadata''"
  then have "CHR ''m'' \<in> set (string_of_nat i)" by simp
  then show False using string_of_nat_digits[of i] by auto
qed

lemma string_of_nat_not_length: "string_of_nat i \<noteq> ''length''"
proof
  assume "string_of_nat i = ''length''"
  then have "CHR ''l'' \<in> set (string_of_nat i)" by simp
  then show False using string_of_nat_digits[of i] by auto
qed

lemma property_array_metadata: "property (JArray xs) ''metadata'' = Inr JUndefined"
proof -
  have "find (\<lambda>i. string_of_nat i = ''metadata'') [0..<length xs] = None"
    by (simp add: find_None_iff string_of_nat_not_metadata)
  then show ?thesis by simp
qed

lemma string_of_nat_small: "n < 10 \<Longrightarrow> string_of_nat n = [digit_char n]"
  by (subst string_of_nat.simps) simp

lemma string_of_nat_large:
  "\<not> n < 10 \<Longrightarrow> string_of_nat n = string_of_nat (n div 10) @ [digit_char (n mod 10)]"
  by (subst string_of_nat.simps) simp

lemma string_of_nat_nonempty: "string_of_nat n \<noteq> []"
  by (cases "n < 10") (simp_all add: string_of_nat_small string_of_nat_large)

lemma digit_char_inj: "a < 10 \<Longrightarrow> b < 10 \<Longrightarrow> digit_char a = digit_char b \<Longrightarrow> a = b"
proof -
  assume a: "a < 10" and b: "b < 10" and eq: "digit_char a = digit_char b"
  have d: "distinct ''0123456789''" by simp
  have "a < length ''0123456789''" "b < length ''0123456789''" using a b by simp_all
  with d eq show "a = b"
    unfolding digit_char_def by (simp only: nth_eq_iff_index_eq)
qed

text \<open>Two counters have the same decimal key only when they are the same counter.\<close>

lemma string_of_nat_inj: "string_of_nat m = string_of_nat n \<Longrightarrow> m = n"
proof (induction n arbitrary: m rule: string_of_nat.induct)
  case (1 n)
  show ?case
  proof (cases "n < 10")
    case True
    note n = string_of_nat_small[OF True]
    show ?thesis
    proof (cases "m < 10")
      case True
      with "1.prems" n have "digit_char m = digit_char n"
        by (simp add: string_of_nat_small)
      then show ?thesis using True \<open>n < 10\<close> by (rule digit_char_inj[rotated 2])
    next
      case False
      with "1.prems" n have "string_of_nat (m div 10) = []"
        by (simp add: string_of_nat_large)
      then show ?thesis using string_of_nat_nonempty by blast
    qed
  next
    case False
    note n = string_of_nat_large[OF False]
    show ?thesis
    proof (cases "m < 10")
      case True
      with "1.prems" n have "string_of_nat (n div 10) = []"
        by (simp add: string_of_nat_small)
      then show ?thesis using string_of_nat_nonempty by blast
    next
      case m: False
      from "1.prems" n have eq: "string_of_nat (m div 10) = string_of_nat (n div 10)"
        and dg: "digit_char (m mod 10) = digit_char (n mod 10)"
        by (simp_all add: string_of_nat_large[OF m])
      have "m div 10 = n div 10" using "1.IH"[OF False eq] .
      moreover have "m mod 10 = n mod 10"
        by (rule digit_char_inj[OF _ _ dg]) simp_all
      ultimately show ?thesis by (metis div_mult_mod_eq)
    qed
  qed
qed

lemma string_of_nat_0: "string_of_nat 0 = ''0''"
  by (simp add: string_of_nat_small digit_char_def)

lemma string_of_nat_1: "string_of_nat 1 = ''1''" "string_of_nat (Suc 0) = ''1''"
  by (simp_all add: string_of_nat_small digit_char_def)

subsection \<open>Conversions and loop counters\<close>

lemma index_below_Finite: "index_below j (Finite r) \<longleftrightarrow> j < nat \<lceil>r\<rceil>"
proof -
  have "(of_nat j < r) = (int j < \<lceil>r\<rceil>)"
    by (simp add: less_ceiling_iff)
  then show ?thesis by (auto simp: index_below_def)
qed

lemma length_array: "property (JArray xs) ''length'' = Inr (JNumber (of_nat (length xs)))"
  by simp

lemma ToNumber_number: "ToNumber eng (JNumber r) = Inr (Finite r)"
  by (simp add: ToNumber_def)

lemma loop_indices_array:
  "loop_indices (Finite (of_nat (length xs))) v = [0..<length xs]"
  by (simp add: loop_indices_def)

lemma element_array: "j < length xs \<Longrightarrow> element (JArray xs) j = Inr (xs ! j)"
  by (simp add: element_def nth_js_def)

text \<open>
  Every value has an element among its first \<open>own_count + 1\<close> that is \<^verbatim>\<open>undefined\<close>, or whose
  read throws: a loop that reads the elements in turn and stops at such an element goes
  no further than that.
\<close>

lemma element_undefined_within:
  "\<exists>j \<le> own_count v. element v j = Inr JUndefined \<or> (\<exists>e. element v j = Inl e)"
proof (cases v)
  case (JArray xs)
  then have "element v (length xs) = Inr JUndefined"
    by (simp add: element_def nth_js_def)
  then show ?thesis using JArray by (auto simp: own_count_def)
next
  case (JString s)
  then have "element v (length s) = Inr JUndefined"
    by (simp add: element_def nth_js_def)
  then show ?thesis using JString by (auto simp: own_count_def)
next
  case (JObject kvs)
  have "\<exists>j \<le> length kvs. map_of kvs (string_of_nat j) = None"
  proof (rule ccontr)
    assume "\<not> (\<exists>j \<le> length kvs. map_of kvs (string_of_nat j) = None)"
    then have "\<forall>j \<le> length kvs. string_of_nat j \<in> fst ` set kvs"
      by (auto simp: map_of_eq_None_iff)
    then have sub: "string_of_nat ` {..length kvs} \<subseteq> fst ` set kvs" by auto
    have "inj_on string_of_nat {..length kvs}"
      by (auto simp: inj_on_def dest: string_of_nat_inj)
    then have "card (string_of_nat ` {..length kvs}) = Suc (length kvs)"
      by (simp add: card_image)
    moreover have "card (string_of_nat ` {..length kvs}) \<le> card (fst ` set kvs)"
      using sub by (intro card_mono) auto
    moreover have "card (fst ` set kvs) \<le> length kvs"
      by (metis card_image_le card_length le_trans List.finite_set)
    ultimately show False by simp
  qed
  then obtain j where "j \<le> length kvs" "map_of kvs (string_of_nat j) = None" by blast
  then have "j \<le> own_count v \<and> element v j = Inr JUndefined"
    using JObject by (simp add: element_def own_count_def)
  then show ?thesis by blast
qed (auto simp: element_def own_count_def)

subsection \<open>Frame conversion\<close>

lemma objectToArray_map_accepts:
  "list_all (\<lambda>key. case property frameObject key of Inl e \<Rightarrow> False | Inr v \<Rightarrow> accepted_value v) keys \<Longrightarrow>
   \<exists>vs. objectToArray_map frameObject keys = Inr vs \<and> length vs = length keys"
proof (induction keys)
  case Nil
  then show ?case by simp
next
  case (Cons key keys)
  then obtain vs where vs: "objectToArray_map frameObject keys = Inr vs" "length vs = length keys"
    by auto
  from Cons.prems obtain r where r: "property frameObject key = Inr (JNumber r)" "0 \<le> r" "r \<le> 255"
    by (auto simp: accepted_value_def split: sum.splits jsval.splits)
  show ?case using vs r by simp
qed

lemma objectToArray_map_rejects:
  "\<not> list_all (\<lambda>key. case property frameObject key of Inl e \<Rightarrow> False | Inr v \<Rightarrow> accepted_value v) keys \<Longrightarrow>
   \<exists>e. objectToArray_map frameObject keys = Inl e"
proof (induction keys)
  case Nil
  then show ?case by simp
next
  case (Cons key keys)
  show ?case
  proof (cases "property frameObject key")
    case (Inl e)
    then show ?thesis by simp
  next
    case (Inr v)
    show ?thesis
    proof (cases "accepted_value v")
      case True
      then obtain r where r: "v = JNumber r" "0 \<le> r" "r \<le> 255"
        by (auto simp: accepted_value_def split: jsval.splits)
      from True Inr Cons.prems
      have "\<not> list_all (\<lambda>key. case property frameObject key of Inl e \<Rightarrow> False
                                | Inr v \<Rightarrow> accepted_value v) keys"
        by simp
      then obtain e where "objectToArray_map frameObject keys = Inl e"
        using Cons.IH by blast
      then show ?thesis using Inr r by simp
    next
      case False
      then show ?thesis
        using Inr by (cases v) (auto simp: accepted_value_def)
    qed
  qed
qed

lemma objectToArray_accepts:
  assumes "frame_accepted frameObject"
  shows "\<exists>bytes. objectToArray frameObject = Inr bytes \<and> length bytes = 768"
proof -
  from assms obtain keys where keys: "Object_keys frameObject = Inr keys"
    and len: "length keys = 768"
    and vals: "list_all (\<lambda>key. case property frameObject key of Inl e \<Rightarrow> False
                                | Inr v \<Rightarrow> accepted_value v) keys"
    by (auto simp: frame_accepted_def split: sum.splits)
  from objectToArray_map_accepts[OF vals] obtain vs where
    vs: "objectToArray_map frameObject keys = Inr vs" "length vs = length keys"
    by blast
  show ?thesis
    using keys len vs by (simp add: objectToArray_def assertTrue_def Uint8Array_def)
qed

lemma objectToArray_rejects:
  assumes "\<not> frame_accepted frameObject"
  shows "\<exists>e. objectToArray frameObject = Inl e"
proof (cases "Object_keys frameObject")
  case (Inl e)
  then show ?thesis by (simp add: objectToArray_def)
next
  case (Inr keys)
  show ?thesis
  proof (cases "length keys = 768")
    case True
    with assms Inr
    have "\<not> list_all (\<lambda>key. case property frameObject key of Inl e \<Rightarrow> False
                              | Inr v \<Rightarrow> accepted_value v) keys"
      by (simp add: frame_accepted_def)
    from objectToArray_map_rejects[OF this] obtain e where
      "objectToArray_map frameObject keys = Inl e" by blast
    then show ?thesis using Inr True by (simp add: objectToArray_def assertTrue_def)
  next
    case False
    then show ?thesis using Inr by (simp add: objectToArray_def assertTrue_def)
  qed
qed


lemma objectToArray_undefined: "\<exists>e. objectToArray JUndefined = Inl e"
  by (simp add: objectToArray_def Object_keys_def)

lemma frame_bytes_accepted:
  "frame_accepted frameObject \<Longrightarrow> objectToArray frameObject = Inr (frame_bytes frameObject)"
  using objectToArray_accepts[of frameObject] by (auto simp: frame_bytes_def)

lemma length_frame_bytes:
  "frame_accepted frameObject \<Longrightarrow> length (frame_bytes frameObject) = 768"
  using objectToArray_accepts[of frameObject] by (auto simp: frame_bytes_def)

text \<open>The frames that the conversion lets through are the accepted ones.\<close>

lemma objectToArray_accepted_iff:
  "frame_accepted frameObject \<longleftrightarrow> (\<exists>bytes. objectToArray frameObject = Inr bytes)"
proof
  assume "frame_accepted frameObject"
  then show "\<exists>bytes. objectToArray frameObject = Inr bytes"
    using objectToArray_accepts by blast
next
  assume ok: "\<exists>bytes. objectToArray frameObject = Inr bytes"
  show "frame_accepted frameObject"
  proof (rule ccontr)
    assume "\<not> frame_accepted frameObject"
    then obtain e where "objectToArray frameObject = Inl e"
      using objectToArray_rejects by blast
    with ok show False by simp
  qed
qed

subsection \<open>The identifier generator\<close>

lemma genFrameID_ok: "1 \<le> len \<Longrightarrow> \<exists>fid rs'. genFrameID len rs = (Inr fid, rs')"
  by (auto simp: genFrameID_def split: prod.splits)

lemma genFrameID_zero: "genFrameID 0 rs = (Inl (Error ''Length must be at least 1''), rs)"
  by (simp add: genFrameID_def)

lemma length_generated_ids: "1 \<le> len \<Longrightarrow> length (generated_ids len n rs) = n"
proof (induction n arbitrary: rs)
  case 0
  then show ?case by simp
next
  case (Suc n)
  from genFrameID_ok[OF Suc.prems, of rs] obtain fid rs' where
    "genFrameID len rs = (Inr fid, rs')" by blast
  then show ?case using Suc by simp
qed

lemma generated_ids_add:
  "1 \<le> len \<Longrightarrow>
   generated_ids len (m + n) rs = generated_ids len m rs @ generated_ids len n (drawn len m rs)"
proof (induction m arbitrary: rs)
  case 0
  then show ?case by simp
next
  case (Suc m)
  from genFrameID_ok[OF Suc.prems, of rs] obtain fid rs' where
    g: "genFrameID len rs = (Inr fid, rs')" by blast
  show ?case using Suc.IH[OF Suc.prems, of rs'] g by simp
qed

lemma drawn_add: "drawn len (m + n) rs = drawn len n (drawn len m rs)"
  by (induction m arbitrary: rs) simp_all

subsection \<open>The build loops\<close>

lemma made_frames_Cons:
  "made_frames aid (fid # ids) (frameObject # fs) =
     \<lparr>frameID = JString fid, frame_animationID = aid, data = frame_bytes frameObject\<rparr> #
     made_frames aid ids fs"
  by (simp add: made_frames_def)

lemma made_frames_Nil: "made_frames aid [] [] = []"
  by (simp add: made_frames_def)

text \<open>
  The loop over the frames of an array, on any counters within it: when every frame read
  is accepted it appends one identifier and one frame per counter; when some counter
  reads a value that the conversion refuses, or nothing, it ends with an exception.
\<close>

lemma build_frames_ok:
  "1 \<le> len \<Longrightarrow> list_all (\<lambda>j. j < length fs \<and> frame_accepted (fs ! j)) js \<Longrightarrow>
   build_frames len aid (JArray fs) js order acc rs =
     (Inr (order @ generated_ids len (length js) rs,
           acc @ made_frames aid (generated_ids len (length js) rs) (map (nth fs) js)),
      drawn len (length js) rs)"
proof (induction js arbitrary: order acc rs)
  case Nil
  then show ?case by (simp add: made_frames_Nil)
next
  case (Cons j js)
  from Cons.prems have j: "j < length fs" and acc: "frame_accepted (fs ! j)"
    and rest: "list_all (\<lambda>j. j < length fs \<and> frame_accepted (fs ! j)) js"
    by simp_all
  from genFrameID_ok[OF Cons.prems(1), of rs] obtain fid rs' where
    g: "genFrameID len rs = (Inr fid, rs')" by blast
  have conv: "objectToArray (fs ! j) = Inr (frame_bytes (fs ! j))"
    using acc by (rule frame_bytes_accepted)
  have fr: "new_Frame (JString fid) aid (frame_bytes (fs ! j)) =
      Inr \<lparr>frameID = JString fid, frame_animationID = aid, data = frame_bytes (fs ! j)\<rparr>"
    using length_frame_bytes[OF acc] by (simp add: new_Frame_def)
  show ?case
    using Cons.IH[OF Cons.prems(1) rest, of "order @ [fid]"
        "acc @ [\<lparr>frameID = JString fid, frame_animationID = aid, data = frame_bytes (fs ! j)\<rparr>]" rs']
      g conv fr element_array[OF j]
    by (simp add: made_frames_Cons)
qed

lemma build_frames_stops:
  "j \<in> set js \<Longrightarrow>
   (\<forall>frameObject. element fs j = Inr frameObject \<longrightarrow> (\<exists>e. objectToArray frameObject = Inl e)) \<Longrightarrow>
   \<exists>e rs'. build_frames len aid fs js order acc rs = (Inl e, rs')"
proof (induction js arbitrary: order acc rs)
  case Nil
  then show ?case by simp
next
  case (Cons i js)
  show ?case
  proof (cases "element fs i")
    case (Inl e)
    then show ?thesis by simp
  next
    case (Inr frameObject)
    note el = this
    show ?thesis
    proof (cases "objectToArray frameObject")
      case (Inl e)
      then show ?thesis using el by simp
    next
      case (Inr frameArray)
      note conv = this
      with el Cons.prems(2) have "i \<noteq> j" by auto
      with Cons.prems(1) have mem: "j \<in> set js" by simp
      obtain g rs' where g: "genFrameID len rs = (g, rs')" by (cases "genFrameID len rs")
      show ?thesis
      proof (cases g)
        case (Inl e)
        then show ?thesis using el conv g by simp
      next
        case (Inr fid)
        note fid = this
        show ?thesis
        proof (cases "new_Frame (JString fid) aid frameArray")
          case (Inl e)
          then show ?thesis using el conv g fid by simp
        next
          case (Inr frame)
          from Cons.IH[OF mem Cons.prems(2), of "order @ [fid]" "acc @ [frame]" rs']
          obtain e rs'' where
            "build_frames len aid fs js (order @ [fid]) (acc @ [frame]) rs' = (Inl e, rs'')"
            by blast
          then show ?thesis using el conv g fid Inr by simp
        qed
      qed
    qed
  qed
qed

text \<open>
  Under an infinite limit the loop ends with an exception, whatever it reads: the counters
  given to it reach an element that is \<^verbatim>\<open>undefined\<close>.
\<close>

lemma build_frames_unbounded:
  "\<exists>e rs'. build_frames len aid fs (loop_indices PlusInfinity fs) order acc rs = (Inl e, rs')"
proof -
  from element_undefined_within[of fs] obtain j where
    j: "j \<le> own_count fs" "element fs j = Inr JUndefined \<or> (\<exists>e. element fs j = Inl e)"
    by blast
  have mem: "j \<in> set (loop_indices PlusInfinity fs)"
    using j(1) by (auto simp: loop_indices_def)
  have "\<forall>frameObject. element fs j = Inr frameObject \<longrightarrow> (\<exists>e. objectToArray frameObject = Inl e)"
    using j(2) objectToArray_undefined by auto
  from build_frames_stops[OF mem this] show ?thesis .
qed

lemma verify_frames_unbounded:
  "\<exists>e. verify_frames fs (loop_indices PlusInfinity fs) = Inl e"
proof -
  from element_undefined_within[of fs] obtain j where
    j: "j \<le> own_count fs" "element fs j = Inr JUndefined \<or> (\<exists>e. element fs j = Inl e)"
    by blast
  have mem: "j \<in> set (loop_indices PlusInfinity fs)"
    using j(1) by (auto simp: loop_indices_def)
  have stops: "j \<in> set js \<Longrightarrow> \<exists>e. verify_frames fs js = Inl e" for js
  proof (induction js)
    case Nil
    then show ?case by simp
  next
    case (Cons i js)
    show ?case
    proof (cases "i = j")
      case True
      then show ?thesis using j(2) by auto
    next
      case False
      with Cons have "\<exists>e. verify_frames fs js = Inl e" by simp
      then show ?thesis
        by (auto simp: assertTrue_def split: sum.splits)
    qed
  qed
  from stops[OF mem] show ?thesis .
qed

lemma frame_list_array:
  "frame_list entry = Some fs \<longleftrightarrow> (\<exists>animation. entry = Some animation \<and> frames animation = JArray fs)"
  by (auto simp: frame_list_def split: option.splits jsval.splits)

lemma build_frames_list:
  assumes "1 \<le> len" and "list_all frame_accepted fs"
  shows "build_frames len aid (JArray fs) [0..<length fs] order acc rs =
     (Inr (order @ generated_ids len (length fs) rs,
           acc @ made_frames aid (generated_ids len (length fs) rs) fs),
      drawn len (length fs) rs)"
proof -
  have "list_all (\<lambda>j. j < length fs \<and> frame_accepted (fs ! j)) [0..<length fs]"
    using assms(2) by (simp add: list_all_length)
  from build_frames_ok[OF assms(1) this, of aid order acc rs] show ?thesis
    by (simp add: map_nth)
qed


lemma build_animations_array:
  "frames currentAnimation = JArray fs \<Longrightarrow>
   build_animations eng len (Some currentAnimation # rest) newMetadata acc rs =
     (case build_frames len (state_animationID currentAnimation) (JArray fs) [0..<length fs] [] acc rs of
        (Inl e, rs') \<Rightarrow> (Inl e, rs')
      | (Inr (order, acc'), rs') \<Rightarrow>
          build_animations eng len rest
            (newMetadata @
             [\<lparr>animationID = state_animationID currentAnimation,
               frameDuration = state_frameDuration currentAnimation,
               repeatCount = state_repeatCount currentAnimation,
               totalFrames = JNumber (of_nat (length fs)),
               frameOrder = order\<rparr>])
            acc' rs')"
  by (simp add: ToNumber_number loop_indices_array)

lemma build_animations_ok:
  "1 \<le> len \<Longrightarrow> list_all entry_accepted body \<Longrightarrow>
   build_animations eng len body newMetadata acc rs =
     (Inr (newMetadata @ built_metadata len body rs, acc @ built_frames len body rs),
      drawn len (total_frames body) rs)"
proof (induction body arbitrary: newMetadata acc rs)
  case Nil
  then show ?case by (simp add: total_frames_def)
next
  case (Cons entry body)
  from Cons.prems obtain fs where
    fl: "frame_list entry = Some fs" and ok: "list_all frame_accepted fs"
    by (auto simp: entry_accepted_def split: option.splits)
  from fl obtain animation where
    e: "entry = Some animation" "frames animation = JArray fs"
    by (auto simp: frame_list_array)
  from Cons.prems have rest: "list_all entry_accepted body" by simp
  have fc: "frame_count (Some animation) = length fs"
    using fl e by (simp add: frame_count_def)
  have tf: "drawn len (total_frames (Some animation # body)) rs =
      drawn len (total_frames body) (drawn len (length fs) rs)"
    using fc by (simp add: total_frames_def drawn_add)
  show ?case
    unfolding e(1) build_animations_array[OF e(2)]
    using build_frames_list[OF Cons.prems(1) ok] Cons.IH[OF Cons.prems(1) rest] fl e(1) fc
    by (simp add: tf)
qed



subsection \<open>The handler of POST /data\<close>

lemma printable_iff: "printable eng v \<longleftrightarrow> (\<exists>text. ToString eng v = Inr text)"
  by (simp add: printable_def split: sum.splits)

lemma printable_scalar [simp]:
  "printable eng JUndefined" "printable eng JNull" "printable eng (JBool b)"
  "printable eng (JNumber r)" "printable eng (JString s)"
  by (simp_all add: printable_def)

lemma log_first_animation_ok:
  assumes "first_printable eng body" and "list_all entry_accepted body"
  shows "log_first_animation eng body = Inr ()"
proof -
  from assms(1) obtain first where first: "nth_js body 0 = Some (Some first)"
    and pr: "printable eng (state_animationID first)" "printable eng (state_frameDuration first)"
      "printable eng (state_repeatCount first)"
    by (auto simp: first_printable_def split: option.splits)
  from first have "0 < length body" "body ! 0 = Some first"
    by (auto simp: nth_js_def split: if_splits)
  then have "Some first \<in> set body"
    by (metis nth_mem)
  with assms(2) have "entry_accepted (Some first)"
    by (simp add: list_all_iff)
  then obtain fs where fs: "frames first = JArray fs"
    by (auto simp: entry_accepted_def frame_list_def split: jsval.splits)
  show ?thesis
    using first pr fs by (auto simp: log_first_animation_def printable_iff)
qed

lemma verify_passed: "(verifyAnimationJson eng body \<noteq> Inr True) = False"
  unfolding verifyAnimationJson_def by (simp split: unit.split)

text \<open>
  What the handler does once both loops have run to their end: it assigns the caches,
  whatever the store then answers.
\<close>

lemma post_data_built:
  assumes "log_first_animation eng body = Inr ()"
    and "build_animations eng len body [] [] (random w) = (Inr (newMetadata, newAnimationData), rs)"
  shows "post_data eng ops len body w =
     (case fst (replaceMetadataArray ops newMetadata (store w)) of
        Inl err \<Rightarrow> SendStatus 501
      | Inr u \<Rightarrow>
          (case fst (pushAnimationCacheToMongo eng ops newAnimationData
                       (snd (replaceMetadataArray ops newMetadata (store w)))) of
             Some err \<Rightarrow> SendStatus 501
           | None \<Rightarrow> SendStatus 200),
      w\<lparr>metadataCache := newMetadata, animationCache := newAnimationData, random := rs,
        store := snd (pushAnimationCacheToMongo eng ops newAnimationData
                        (snd (replaceMetadataArray ops newMetadata (store w))))\<rparr>)"
proof -
  obtain replaced s1 where r: "replaceMetadataArray ops newMetadata (store w) = (replaced, s1)"
    by (cases "replaceMetadataArray ops newMetadata (store w)")
  obtain pushed s2 where p: "pushAnimationCacheToMongo eng ops newAnimationData s1 = (pushed, s2)"
    by (cases "pushAnimationCacheToMongo eng ops newAnimationData s1")
  show ?thesis
    using assms r p
    by (simp add: post_data_def verify_passed Let_def split: sum.splits option.splits)
qed




lemma post_data_accepts:
  assumes "1 \<le> len" and "first_printable eng body" and "list_all entry_accepted body"
  shows "post_data eng ops len body w =
     (case fst (replaceMetadataArray ops (built_metadata len body (random w)) (store w)) of
        Inl err \<Rightarrow> SendStatus 501
      | Inr u \<Rightarrow>
          (case fst (pushAnimationCacheToMongo eng ops (built_frames len body (random w))
                       (snd (replaceMetadataArray ops (built_metadata len body (random w)) (store w)))) of
             Some err \<Rightarrow> SendStatus 501
           | None \<Rightarrow> SendStatus 200),
      w\<lparr>metadataCache := built_metadata len body (random w),
        animationCache := built_frames len body (random w),
        random := drawn len (total_frames body) (random w),
        store := snd (pushAnimationCacheToMongo eng ops (built_frames len body (random w))
                   (snd (replaceMetadataArray ops (built_metadata len body (random w)) (store w))))\<rparr>)"
  using post_data_built[OF log_first_animation_ok[OF assms(2,3)],
      of len w "built_metadata len body (random w)" "built_frames len body (random w)"
         "drawn len (total_frames body) (random w)" ops]
    build_animations_ok[OF assms(1,3), of eng "[]" "[]" "random w"]
  by simp

lemma post_data_accepts_caches:
  assumes "1 \<le> len" and "first_printable eng body" and "list_all entry_accepted body"
  shows "metadataCache (snd (post_data eng ops len body w)) = built_metadata len body (random w)"
    and "animationCache (snd (post_data eng ops len body w)) = built_frames len body (random w)"
    and "fst (post_data eng ops len body w) = SendStatus 200 \<or>
         fst (post_data eng ops len body w) = SendStatus 501"
  unfolding post_data_accepts[OF assms]
  by (simp_all split: sum.splits option.splits)

subsection \<open>What the build loops produce\<close>

lemma entry_accepted_array:
  "entry_accepted entry \<Longrightarrow>
   \<exists>animation fs. entry = Some animation \<and> frames animation = JArray fs \<and>
      frame_list entry = Some fs \<and> frame_count entry = length fs \<and> list_all frame_accepted fs"
  by (auto simp: entry_accepted_def frame_list_def frame_count_def split: option.splits jsval.splits)



lemma frameID_made_frames:
  "length ids = length fs \<Longrightarrow> map frameID (made_frames aid ids fs) = map JString ids"
  by (induction ids fs rule: list_induct2) (simp_all add: made_frames_def)

lemma frameID_built_frames:
  "1 \<le> len \<Longrightarrow> list_all entry_accepted body \<Longrightarrow>
   map frameID (built_frames len body rs) = map JString (generated_ids len (total_frames body) rs)"
proof (induction body arbitrary: rs)
  case Nil
  then show ?case by (simp add: total_frames_def)
next
  case (Cons entry body)
  from Cons.prems have "entry_accepted entry" by simp
  from entry_accepted_array[OF this] obtain animation fs where
    e: "entry = Some animation" "frame_list entry = Some fs" "frame_count entry = length fs"
    by auto
  from Cons.prems have rest: "list_all entry_accepted body" by simp
  have tf: "total_frames (Some animation # body) = length fs + total_frames body"
    using e by (simp add: total_frames_def)
  show ?case
    using e Cons.IH[OF Cons.prems(1) rest] generated_ids_add[OF Cons.prems(1)]
      frameID_made_frames[of "generated_ids len (length fs) rs" fs]
      length_generated_ids[OF Cons.prems(1)]
    by (simp add: tf)
qed




subsection \<open>Loading from a store in memory\<close>

lemma mem_db_fetchFrame:
  "fetchFrame mem_db fid s = (Inr (map_option snd (map_of (stored_frames s) fid)), s)"
  by (simp add: mem_db_def)

lemma frames_sized_lookup:
  "frames_sized s \<Longrightarrow> map_of (stored_frames s) fid = Some (aid, bytes) \<Longrightarrow> length bytes = 768"
  by (auto simp: frames_sized_def list_all_iff dest: map_of_SomeD)

text \<open>
  The inner loading loop under a finite limit returns: it appends the frames of the
  references that resolve, up to the first that does not, whose message it throws.
\<close>

lemma load_frames_mem:
  assumes "frames_sized (store w)" and "ToString eng (animationID metadata) = Inr name"
  shows "load_frames eng mem_db metadata (Finite r) j w =
     Some (if list_all (resolves (store w)) (map (Pair metadata) [j..<nat \<lceil>r\<rceil>]) then None
           else Some (Error (missing_message eng
                  (hd (dropWhile (resolves (store w)) (map (Pair metadata) [j..<nat \<lceil>r\<rceil>]))))),
           w\<lparr>animationCache := animationCache w @
                map (loaded_frame (store w))
                  (takeWhile (resolves (store w)) (map (Pair metadata) [j..<nat \<lceil>r\<rceil>]))\<rparr>)"
  using assms(1)
proof (induction "nat \<lceil>r\<rceil> - j" arbitrary: j w)
  case 0
  then have ge: "nat \<lceil>r\<rceil> \<le> j" by simp
  then have nb: "\<not> index_below j (Finite r)" by (simp add: index_below_Finite)
  have emp: "[j..<nat \<lceil>r\<rceil>] = []" using ge by simp
  show ?case
    unfolding emp using nb by (subst load_frames.simps) simp
next
  case (Suc k)
  then have lt: "j < nat \<lceil>r\<rceil>" by simp
  have below: "index_below j (Finite r)" using lt by (simp add: index_below_Finite)
  have up: "[j..<nat \<lceil>r\<rceil>] = j # [Suc j..<nat \<lceil>r\<rceil>]" using lt by (simp add: upt_conv_Cons)
  let ?fid = "frameOrder_at metadata j"
  show ?case
  proof (cases "map_of (stored_frames (store w)) ?fid")
    case None
    then have nr: "\<not> resolves (store w) (metadata, j)"
      by (simp add: resolves_def stored_def)
    show ?thesis
      using below None nr assms(2)
      by (subst load_frames.simps) (simp add: up mem_db_fetchFrame missing_message_def)
  next
    case (Some found)
    obtain aid bytes where found: "found = (aid, bytes)" by (cases found)
    have len: "length bytes = 768"
      using frames_sized_lookup[OF Suc.prems] Some found by simp
    let ?frame = "\<lparr>frameID = ?fid, frame_animationID = animationID metadata, data = bytes\<rparr>"
    let ?w = "w\<lparr>store := store w, animationCache := animationCache w @ [?frame]\<rparr>"
    have k: "k = nat \<lceil>r\<rceil> - Suc j" using Suc.hyps(2) by simp
    have sized: "frames_sized (store ?w)" using Suc.prems by simp
    note ih = Suc.hyps(1)[OF k sized]
    have res: "resolves (store w) (metadata, j)"
      using Some by (simp add: resolves_def stored_def)
    have lf: "loaded_frame (store w) (metadata, j) = ?frame"
      using Some found by (simp add: loaded_frame_def)
    show ?thesis
      using below Some found len lf res assms(2) ih
      by (subst load_frames.simps) (simp add: up mem_db_fetchFrame new_Frame_def)
  qed
qed

lemma referenced_Cons:
  "referenced (metadata # mds) = map (Pair metadata) [0..<frame_limit metadata] @ referenced mds"
  by (simp add: referenced_def)

lemma load_animations_mem:
  assumes "frames_sized (store w)"
    and "list_all (\<lambda>metadata. counted metadata \<and> printable eng (animationID metadata)) mds"
  shows "load_animations eng mem_db mds w =
     Some (if list_all (resolves (store w)) (referenced mds) then None
           else Some (Error (missing_message eng
                  (hd (dropWhile (resolves (store w)) (referenced mds))))),
           w\<lparr>animationCache := animationCache w @
                map (loaded_frame (store w)) (takeWhile (resolves (store w)) (referenced mds))\<rparr>)"
  using assms
proof (induction mds arbitrary: w)
  case Nil
  then show ?case by (simp add: referenced_def)
next
  case (Cons metadata mds)
  from Cons.prems(2) obtain r name where
    r: "totalFrames metadata = JNumber r" and name: "ToString eng (animationID metadata) = Inr name"
    and rest: "list_all (\<lambda>metadata. counted metadata \<and> printable eng (animationID metadata)) mds"
    by (auto simp: counted_def printable_iff split: jsval.splits)
  let ?refs = "map (Pair metadata) [0..<nat \<lceil>r\<rceil>]"
  let ?P = "resolves (store w)"
  have split: "referenced (metadata # mds) = ?refs @ referenced mds"
    using r by (simp add: referenced_Cons frame_limit_def)
  note first = load_frames_mem[OF Cons.prems(1) name, of r 0]
  show ?case
  proof (cases "list_all ?P ?refs")
    case True
    then have tw: "takeWhile ?P (?refs @ referenced mds) = ?refs @ takeWhile ?P (referenced mds)"
      by (intro takeWhile_append2) (auto simp: list_all_iff)
    have dw: "dropWhile ?P (?refs @ referenced mds) = dropWhile ?P (referenced mds)"
      using True by (intro dropWhile_append2) (auto simp: list_all_iff)
    have tw1: "takeWhile ?P ?refs = ?refs"
      using True by (simp add: list_all_iff)
    let ?w = "w\<lparr>animationCache := animationCache w @ map (loaded_frame (store w)) ?refs\<rparr>"
    have sized: "frames_sized (store ?w)" using Cons.prems(1) by simp
    have loaded: "load_frames eng mem_db metadata (Finite r) 0 w = Some (None, ?w)"
      using first True tw1 by simp
    show ?thesis
      using loaded Cons.IH[OF sized rest] True name r
      by (simp add: split tw dw ToNumber_number)
  next
    case False
    then have "\<exists>ref \<in> set ?refs. \<not> ?P ref"
      by (simp add: list_all_iff)
    then obtain ref where ref: "ref \<in> set ?refs" "\<not> ?P ref"
      by blast
    then have tw: "takeWhile ?P (?refs @ referenced mds) = takeWhile ?P ?refs"
      by (intro takeWhile_append1)
    have dw: "dropWhile ?P (?refs @ referenced mds) = dropWhile ?P ?refs @ referenced mds"
      using ref by (intro dropWhile_append1)
    have ne: "dropWhile ?P ?refs \<noteq> []"
      using ref by (auto simp: dropWhile_eq_Nil_conv)
    have hd: "hd (dropWhile ?P (?refs @ referenced mds)) = hd (dropWhile ?P ?refs)"
      using ne by (simp add: dw)
    have loaded: "load_frames eng mem_db metadata (Finite r) 0 w =
        Some (Some (Error (missing_message eng (hd (dropWhile ?P ?refs)))),
              w\<lparr>animationCache := animationCache w @
                   map (loaded_frame (store w)) (takeWhile ?P ?refs)\<rparr>)"
      using first False by simp
    show ?thesis
      using loaded False name r by (simp add: split tw hd ToNumber_number)
  qed
qed

lemma missing_reference_iff:
  "(\<exists>metadata \<in> set mds. \<exists>j < frame_limit metadata. \<not> stored s (frameOrder_at metadata j)) \<longleftrightarrow>
   \<not> list_all (resolves s) (referenced mds)"
proof -
  have "(\<exists>metadata \<in> set mds. \<exists>j < frame_limit metadata. \<not> stored s (frameOrder_at metadata j)) \<longleftrightarrow>
        (\<exists>ref \<in> set (referenced mds). \<not> resolves s ref)"
    by (fastforce simp: referenced_def resolves_def)
  then show ?thesis by (simp add: list_all_iff)
qed

text \<open>
  The first reference that does not resolve, when there is one: it is a reference of the
  metadata, no frame is stored for it, and every reference before it resolves.
\<close>

lemma first_missing:
  assumes "\<not> list_all P refs"
  shows "hd (dropWhile P refs) \<in> set refs \<and> \<not> P (hd (dropWhile P refs)) \<and>
         refs = takeWhile P refs @ hd (dropWhile P refs) # tl (dropWhile P refs) \<and>
         list_all P (takeWhile P refs)"
proof -
  from assms have ne: "dropWhile P refs \<noteq> []"
    by (auto simp: dropWhile_eq_Nil_conv list_all_iff)
  then have "\<not> P (hd (dropWhile P refs))"
    by (rule hd_dropWhile)
  moreover have "hd (dropWhile P refs) \<in> set refs"
    using ne by (metis hd_in_set set_dropWhileD)
  moreover have "refs = takeWhile P refs @ hd (dropWhile P refs) # tl (dropWhile P refs)"
    using ne by (metis takeWhile_dropWhile_id list.collapse)
  moreover have "list_all P (takeWhile P refs)"
    by (auto simp: list_all_iff dest: set_takeWhileD)
  ultimately show ?thesis by blast
qed

lemma init_mem_nonempty:
  "stored_metadata (store w) \<noteq> [] \<Longrightarrow>
   connectToDbAndInitCache eng mem_db testMetadata testAnimationData w =
     load_animations eng mem_db (stored_metadata (store w))
       (w\<lparr>metadataCache := stored_metadata (store w), store := store w\<rparr>)"
  by (simp add: connectToDbAndInitCache_def mem_db_def)

lemma init_mem:
  assumes "stored_metadata (store w) \<noteq> []" and "frames_sized (store w)"
    and "list_all (\<lambda>metadata. counted metadata \<and> printable eng (animationID metadata))
           (stored_metadata (store w))"
  shows "connectToDbAndInitCache eng mem_db testMetadata testAnimationData w =
     Some (if list_all (resolves (store w)) (referenced (stored_metadata (store w))) then None
           else Some (Error (missing_message eng
                  (hd (dropWhile (resolves (store w)) (referenced (stored_metadata (store w))))))),
           w\<lparr>metadataCache := stored_metadata (store w),
             animationCache := animationCache w @
                map (loaded_frame (store w))
                  (takeWhile (resolves (store w)) (referenced (stored_metadata (store w))))\<rparr>)"
proof -
  let ?mds = "stored_metadata (store w)"
  let ?w = "w\<lparr>metadataCache := ?mds, store := store w\<rparr>"
  have sized: "frames_sized (store ?w)" using assms(2) by simp
  show ?thesis
    unfolding init_mem_nonempty[OF assms(1)]
    using load_animations_mem[OF sized assms(3)] by simp
qed

lemma frameID_loaded_frame [simp]: "frameID (loaded_frame s ref) = frameOrder_at (fst ref) (snd ref)"
  by (simp add: loaded_frame_def)

lemma mem_db_replace [simp]:
  "replaceMetadataArray mem_db m s = (Inr (), s\<lparr>stored_metadata := m\<rparr>)"
  by (simp add: mem_db_def)

lemma failing_db_replace [simp]:
  "replaceMetadataArray failing_db m s = (Inl (Error ''metadata write failed''), s)"
  by (simp add: failing_db_def mem_db_def)

lemma frames_failing_db_replace [simp]:
  "replaceMetadataArray frames_failing_db m s = (Inr (), s\<lparr>stored_metadata := m\<rparr>)"
  by (simp add: frames_failing_db_def mem_db_def)

lemma push_mem_db:
  "fst (pushAnimationCacheToMongo eng mem_db fs s) = None \<and>
   stored_metadata (snd (pushAnimationCacheToMongo eng mem_db fs s)) = stored_metadata s"
  by (induction fs arbitrary: s) (simp_all add: mem_db_def)

lemma push_failing_db:
  "fst (pushAnimationCacheToMongo eng failing_db fs s) = None \<and>
   stored_metadata (snd (pushAnimationCacheToMongo eng failing_db fs s)) = stored_metadata s"
  by (induction fs arbitrary: s) (simp_all add: failing_db_def mem_db_def)

lemma push_frames_failing_db:
  "list_all (\<lambda>frame. printable eng (frameID frame) \<and> printable eng (frame_animationID frame)) fs \<Longrightarrow>
   pushAnimationCacheToMongo eng frames_failing_db fs s = (None, s)"
  by (induction fs arbitrary: s)
     (auto simp: frames_failing_db_def mem_db_def printable_iff)

subsection \<open>The example data\<close>

lemma keys_solid_frame: "Object_keys (solid_frame n v) = Inr (map string_of_nat [0..<n])"
  by (simp add: solid_frame_def Object_keys_def comp_def)

lemma map_of_const:
  "key \<in> set ks \<Longrightarrow> map_of (map (\<lambda>k. (f k, c)) ks) (f key) = Some c"
  by (induction ks) auto

lemma property_solid_frame:
  "k < n \<Longrightarrow> property (solid_frame n v) (string_of_nat k) = Inr (JNumber v)"
  using map_of_const[of k "[0..<n]" string_of_nat "JNumber v"]
  by (simp add: solid_frame_def)

lemma length_solid_frame: "property (solid_frame n v) ''length'' = Inr JUndefined"
proof -
  have "''length'' \<notin> fst ` set (map (\<lambda>k. (string_of_nat k, JNumber v)) [0..<n])"
    using string_of_nat_not_length by force
  then have "map_of (map (\<lambda>k. (string_of_nat k, JNumber v)) [0..<n]) ''length'' = None"
    by (simp only: map_of_eq_None_iff not_False_eq_True)
  then show ?thesis by (simp add: solid_frame_def)
qed

lemma solid_frame_accepted:
  "0 \<le> v \<Longrightarrow> v \<le> 255 \<Longrightarrow> frame_accepted (solid_frame 768 v)"
  by (auto simp: frame_accepted_def keys_solid_frame list_all_iff accepted_value_def
      property_solid_frame)



lemma solid_frame_not_spec_valid: "n \<noteq> 256 \<Longrightarrow> \<not> spec_frame_valid (solid_frame n v)"
  by (simp add: spec_frame_valid_def keys_solid_frame)

lemma objectToArray_map_solid:
  "set ks \<subseteq> {..<n} \<Longrightarrow> 0 \<le> v \<Longrightarrow> v \<le> 255 \<Longrightarrow>
   objectToArray_map (solid_frame n v) (map string_of_nat ks) = Inr (replicate (length ks) v)"
  by (induction ks) (simp_all add: property_solid_frame)

lemma frame_bytes_solid:
  "0 \<le> v \<Longrightarrow> v \<le> 255 \<Longrightarrow> frame_bytes (solid_frame 768 v) = replicate 768 (ToUint8 v)"
proof -
  assume v: "0 \<le> v" "v \<le> 255"
  have "set [0..<768] \<subseteq> {..<768::nat}" by auto
  from objectToArray_map_solid[OF this v] show ?thesis
    by (simp add: frame_bytes_def objectToArray_def assertTrue_def keys_solid_frame Uint8Array_def)
qed


lemma ToUint8_0: "ToUint8 0 = 0"
  by (simp add: ToUint8_def)

lemma ToUint8_255: "ToUint8 255 = 255"
  by (simp add: ToUint8_def)

lemma genFrameID_loop_zeros:
  "genFrameID_loop n acc (zeros) = (acc @ replicate n CHR ''0'', zeros)"
proof (induction n arbitrary: acc)
  case 0
  then show ?case by simp
next
  case (Suc n)
  have "character_at 0 = ''0''" by (simp add: character_at_def characters_def)
  moreover have "(\<lambda>k. zeros (Suc k)) = zeros" by (rule ext) (simp add: zeros_def)
  moreover have "zeros 0 = 0" by (simp add: zeros_def)
  ultimately show ?case using Suc by (simp add: replicate_app_Cons_same)
qed

lemma genFrameID_zeros:
  "1 \<le> len \<Longrightarrow> genFrameID len (zeros) = (Inr (replicate len CHR ''0''), zeros)"
  by (simp add: genFrameID_def genFrameID_loop_zeros)

lemma generated_ids_zeros:
  "1 \<le> len \<Longrightarrow> generated_ids len n (zeros) = replicate n (replicate len CHR ''0'')"
  by (induction n) (simp_all add: genFrameID_zeros)

lemma drawn_zeros: "1 \<le> len \<Longrightarrow> drawn len n (zeros) = zeros"
  by (induction n) (simp_all add: genFrameID_zeros)

lemma ids_one_zero: "generated_ids 6 1 (zeros) = [''000000'']"
  using generated_ids_zeros[of 6 1] by (simp add: eval_nat_numeral)

lemma ids_sixteenths: "generated_ids 6 2 sixteenths = [''012345'', ''6789ab'']"
  by (simp add: sixteenths_def eval_nat_numeral genFrameID_def character_at_def characters_def)

lemma frame_list_animation_of [simp]: "frame_list (animation_of name fs) = Some fs"
  by (simp add: frame_list_def animation_of_def)

lemma frame_count_animation_of [simp]: "frame_count (animation_of name fs) = length fs"
  by (simp add: frame_count_def)

lemma animation_of_accepted:
  "list_all frame_accepted fs \<Longrightarrow> entry_accepted (animation_of name fs)"
  by (simp add: entry_accepted_def)

lemma animation_of_printable: "first_printable plain_engine (animation_of name fs # rest)"
  by (simp add: first_printable_def nth_js_def animation_of_def printable_def plain_engine_def)

lemma bare_animation_printable: "first_printable plain_engine [bare_animation]"
  by (simp add: first_printable_def nth_js_def bare_animation_def printable_def)

lemma bare_animation_accepted: "list_all entry_accepted [bare_animation]"
  by (simp add: entry_accepted_def frame_list_def bare_animation_def)

lemma sunset_accepted: "list_all entry_accepted [animation_of ''sunset'' [solid_frame 768 255]]"
  by (simp add: animation_of_accepted solid_frame_accepted)

lemma sunrise_accepted: "list_all entry_accepted [animation_of ''sunrise'' [solid_frame 768 0]]"
  by (simp add: animation_of_accepted solid_frame_accepted)


lemma two_frames_accepted: "list_all entry_accepted two_frames"
  by (simp add: two_frames_def animation_of_accepted solid_frame_accepted)

lemma total_two_frames: "total_frames two_frames = 2"
  by (simp add: two_frames_def total_frames_def)

lemma built_metadata_single:
  "built_metadata 6 [animation_of name [frameObject]] (zeros) =
     [\<lparr>animationID = JString name, frameDuration = JNumber 100, repeatCount = JNumber 1,
       totalFrames = JNumber 1, frameOrder = [''000000'']\<rparr>]"
proof -
  have "built_metadata 6 [animation_of name [frameObject]] (zeros) =
     [\<lparr>animationID = JString name, frameDuration = JNumber 100, repeatCount = JNumber 1,
       totalFrames = JNumber (of_nat (frame_count (animation_of name [frameObject]))),
       frameOrder = generated_ids 6 (frame_count (animation_of name [frameObject])) (zeros)\<rparr>]"
    by (simp add: animation_of_def)
  then show ?thesis by (simp add: genFrameID_zeros eval_nat_numeral)
qed

lemma built_frames_single:
  "built_frames 6 [animation_of name [frameObject]] (zeros) =
     [\<lparr>frameID = JString ''000000'', frame_animationID = JString name,
       data = frame_bytes frameObject\<rparr>]"
proof -
  have "built_frames 6 [animation_of name [frameObject]] (zeros) =
     made_frames (JString name) (generated_ids 6 (length [frameObject]) (zeros)) [frameObject]"
    by (simp add: animation_of_def frame_list_def)
  then show ?thesis by (simp add: genFrameID_zeros eval_nat_numeral made_frames_def)
qed

lemma stored_example:
  "stored \<lparr>stored_metadata = m, stored_frames = [(JString ''0a1b2c'', JString ''rainbow'', replicate 768 0)]\<rparr>
     (JString ''0a1b2c'')"
  "\<not> stored \<lparr>stored_metadata = m, stored_frames = [(JString ''0a1b2c'', JString ''rainbow'', replicate 768 0)]\<rparr>
     (JString ''ffffff'')"
  by (simp_all add: stored_def)

lemma referenced_gap:
  "referenced [gap_metadata order] = [(gap_metadata order, 0), (gap_metadata order, 1)]"
proof -
  have "frame_limit (gap_metadata order) = Suc (Suc 0)"
    by (simp add: frame_limit_def gap_metadata_def)
  then show ?thesis by (simp add: referenced_def)
qed

lemma gap_metadata_fields:
  "counted (gap_metadata order)" "printable eng (animationID (gap_metadata order))"
  "ToString eng (animationID (gap_metadata order)) = Inr ''rainbow''"
  "frame_limit (gap_metadata order) = 2"
  "frameOrder_at (gap_metadata [a, b]) 0 = JString a"
  "frameOrder_at (gap_metadata [a, b]) 1 = JString b"
  "frameOrder_at (gap_metadata [a, b]) (Suc 0) = JString b"
  "animationID (gap_metadata order) = JString ''rainbow''"
  by (simp_all add: counted_def printable_def gap_metadata_def frame_limit_def frameOrder_at_def
      nth_js_def)

lemma example_metadata_fields:
  "counted example_metadata" "printable eng (animationID example_metadata)"
  "referenced [example_metadata] = [(example_metadata, 0)]"
  "frameOrder_at example_metadata 0 = JString ''0a1b2c''"
  by (simp_all add: counted_def printable_def example_metadata_def frame_limit_def referenced_def
      frameOrder_at_def nth_js_def)

text \<open>
  What the callback of the validation returns for a null entry, for animations without
  fields or without frames, and for an animation whose frame has 768 entries.
\<close>

lemma verify_callback_catches:
  "verify_callback plain_engine None = Some (Error ''given var is null'')"
  "verify_callback plain_engine bare_animation = Some (Error ''name is undefined'')"
  "verify_callback plain_engine (animation_of ''sunrise'' []) = Some (Error ''frame list has no entries'')"
  "verify_callback plain_engine (animation_of ''sunrise'' [solid_frame 768 0]) =
     Some (Error ''0th entry length in color array frame list != 256'')"
proof -
  show "verify_callback plain_engine None = Some (Error ''given var is null'')"
    by (simp add: verify_callback_def verify_try_def assertTrue_def)
  show "verify_callback plain_engine bare_animation = Some (Error ''name is undefined'')"
    by (simp add: verify_callback_def verify_try_def assertTrue_def bare_animation_def
        not_undefined_def)
  show "verify_callback plain_engine (animation_of ''sunrise'' []) =
      Some (Error ''frame list has no entries'')"
    by (simp add: verify_callback_def verify_try_def assertTrue_def animation_of_def
        not_undefined_def ToNumber_def index_below_def)
  have one: "loop_indices (Finite 1) v = [0]" for v
    by (simp add: loop_indices_def)
  show "verify_callback plain_engine (animation_of ''sunrise'' [solid_frame 768 0]) =
      Some (Error ''0th entry length in color array frame list != 256'')"
    by (simp add: verify_callback_def verify_try_def assertTrue_def animation_of_def
        not_undefined_def ToNumber_def index_below_def one element_def nth_js_def
        length_solid_frame string_of_nat_0)
qed

subsection \<open>What the conversions decide\<close>

text \<open>
  Three runs that show what the conversions of the language do. A first animation whose
  identifier is an object with an own property \<^verbatim>\<open>toString\<close> makes the log of line 209
  throw, before the loops: nothing is assigned. An animation whose \<^verbatim>\<open>frames\<close> is the
  number 5 has no \<^verbatim>\<open>length\<close>: the comparison of line 221 is false, no frame is read, and
  the handler answers 200 and caches a metadata entry without \<^verbatim>\<open>totalFrames\<close>. A stored
  metadata entry with such an object as identifier makes the log of line 64 throw, and
  initialisation ends there with an empty animation cache.
\<close>

lemma post_data_unprintable_identifier:
  "post_data plain_engine mem_db 6
     [Some \<lparr>state_animationID = JObject [(''toString'', JNumber 0)],
            state_frameDuration = JNumber 100, state_repeatCount = JNumber 1,
            frames = JArray [solid_frame 768 0]\<rparr>] serving_world =
   (Thrown (TypeError ''Cannot convert object to primitive value''), serving_world)"
  by (simp add: post_data_def verify_passed log_first_animation_def nth_js_def)

lemma post_data_frames_of_another_kind:
  "post_data plain_engine mem_db 6
     [Some \<lparr>state_animationID = JString ''sunrise'', state_frameDuration = JNumber 100,
            state_repeatCount = JNumber 1, frames = JNumber 5\<rparr>] idle_world =
   (SendStatus 200,
    idle_world\<lparr>metadataCache :=
                 [\<lparr>animationID = JString ''sunrise'', frameDuration = JNumber 100,
                   repeatCount = JNumber 1, totalFrames = JUndefined, frameOrder = []\<rparr>],
               store := \<lparr>stored_metadata =
                 [\<lparr>animationID = JString ''sunrise'', frameDuration = JNumber 100,
                   repeatCount = JNumber 1, totalFrames = JUndefined, frameOrder = []\<rparr>],
                 stored_frames = []\<rparr>\<rparr>)"
  by (simp add: post_data_def verify_passed log_first_animation_def nth_js_def ToNumber_def
      loop_indices_def plain_engine_def idle_world_def mem_db_def)

lemma init_unprintable_identifier:
  "connectToDbAndInitCache plain_engine mem_db [] no_test_data odd_world =
     Some (Some (TypeError ''Cannot convert object to primitive value''),
           odd_world\<lparr>metadataCache := stored_metadata (store odd_world)\<rparr>)"
  by (simp add: connectToDbAndInitCache_def mem_db_def odd_world_def)

subsection \<open>Validation of a payload\<close>

text \<open>
  Claim C1. The validation step is to report the first failure of a payload and to reject
  it. For the two payloads below the callback of the validation finds the failure and the
  function still returns \<^verbatim>\<open>true\<close>; the handler answers 200 and replaces the caches of a server
  that was serving another animation. The first payload is one animation without
  identifier, duration and repeat count and with an empty frame list; the second is one
  animation whose frame has 768 entries, where the rule asks for 256.
\<close>

theorem validation_failures_are_accepted:
  "\<not> spec_payload_valid [bare_animation] \<and>
   verify_callback plain_engine bare_animation = Some (Error ''name is undefined'') \<and>
   verifyAnimationJson plain_engine [bare_animation] = Inr True \<and>
   fst (post_data plain_engine mem_db 6 [bare_animation] serving_world) = SendStatus 200 \<and>
   metadataCache serving_world = [example_metadata] \<and>
   metadataCache (snd (post_data plain_engine mem_db 6 [bare_animation] serving_world)) =
     [\<lparr>animationID = JUndefined, frameDuration = JUndefined, repeatCount = JUndefined,
       totalFrames = JNumber 0, frameOrder = []\<rparr>] \<and>
   animationCache (snd (post_data plain_engine mem_db 6 [bare_animation] serving_world)) = [] \<and>
   \<not> spec_payload_valid [animation_of ''sunrise'' [solid_frame 768 0]] \<and>
   verify_callback plain_engine (animation_of ''sunrise'' [solid_frame 768 0]) =
     Some (Error ''0th entry length in color array frame list != 256'') \<and>
   verifyAnimationJson plain_engine [animation_of ''sunrise'' [solid_frame 768 0]] = Inr True \<and>
   fst (post_data plain_engine mem_db 6 [animation_of ''sunrise'' [solid_frame 768 0]]
          serving_world) = SendStatus 200 \<and>
   metadataCache (snd (post_data plain_engine mem_db 6 [animation_of ''sunrise'' [solid_frame 768 0]]
          serving_world)) =
     [\<lparr>animationID = JString ''sunrise'', frameDuration = JNumber 100, repeatCount = JNumber 1,
       totalFrames = JNumber 1, frameOrder = [''000000'']\<rparr>]"
proof -
  let ?bare = "[bare_animation]"
  let ?sunrise = "[animation_of ''sunrise'' [solid_frame 768 0]]"
  have le: "(1::nat) \<le> 6" by simp
  have rnd: "random serving_world = zeros" by (simp add: serving_world_def)
  have inv1: "\<not> spec_payload_valid ?bare"
    by (simp add: spec_payload_valid_def spec_entry_valid_def bare_animation_def)
  have inv2: "\<not> spec_payload_valid ?sunrise"
    by (simp add: spec_payload_valid_def spec_entry_valid_def animation_of_def
        solid_frame_not_spec_valid)
  have ver: "verifyAnimationJson plain_engine body = Inr True" for body
    unfolding verifyAnimationJson_def by (simp split: unit.split)
  have old: "metadataCache serving_world = [example_metadata]"
    by (simp add: serving_world_def)
  note bare = post_data_accepts_caches[OF le bare_animation_printable bare_animation_accepted,
      of mem_db serving_world]
  have st1: "fst (post_data plain_engine mem_db 6 ?bare serving_world) = SendStatus 200"
    unfolding post_data_accepts[OF le bare_animation_printable bare_animation_accepted]
    by (simp add: push_mem_db)
  have m1: "built_metadata 6 ?bare (zeros) =
     [\<lparr>animationID = JUndefined, frameDuration = JUndefined, repeatCount = JUndefined,
       totalFrames = JNumber 0, frameOrder = []\<rparr>]"
    by (simp add: bare_animation_def frame_count_def frame_list_def)
  have f1: "built_frames 6 ?bare (zeros) = []"
    by (simp add: bare_animation_def frame_list_def made_frames_def)
  note sunrise = post_data_accepts_caches[OF le animation_of_printable sunrise_accepted,
      of mem_db serving_world]
  have st2: "fst (post_data plain_engine mem_db 6 ?sunrise serving_world) = SendStatus 200"
    unfolding post_data_accepts[OF le animation_of_printable sunrise_accepted]
    by (simp add: push_mem_db)
  show ?thesis
    using inv1 inv2 ver old st1 st2 bare(1,2) sunrise(1) m1 f1 rnd
      verify_callback_catches(2,4) built_metadata_single[of "''sunrise''" "solid_frame 768 0"]
    by simp
qed

subsection \<open>Rejection of a payload\<close>




subsection \<open>An accepted payload\<close>




subsection \<open>Reading a frame\<close>

text \<open>
  Claim C4, as the code has it. Every read of a frame with a non-empty identifier is
  answered by \<open>fetchFrame\<close> of the store: the bytes when the store has the frame, 404 when it
  answers \<^verbatim>\<open>null\<close>, 500 when it fails. The animation cache is not consulted (the answer is
  the same whatever it holds) and the read leaves both caches as they are.
\<close>

theorem get_frameData_reads_store:
  "frameId \<noteq> [] \<Longrightarrow>
   fst (get_frameData ops frameId w) =
     (case fst (fetchFrame ops (JString frameId) (store w)) of
        Inl e \<Rightarrow> SendText 500 ''Internal Server Error''
      | Inr None \<Rightarrow> SendText 404 ''Frame not found.''
      | Inr (Some frame) \<Rightarrow> SendBytes frame) \<and>
   fst (get_frameData ops frameId (w\<lparr>animationCache := c\<rparr>)) = fst (get_frameData ops frameId w) \<and>
   animationCache (snd (get_frameData ops frameId w)) = animationCache w \<and>
   metadataCache (snd (get_frameData ops frameId w)) = metadataCache w"
proof -
  assume ne: "frameId \<noteq> []"
  obtain r s' where f: "fetchFrame ops (JString frameId) (store w) = (r, s')"
    by (cases "fetchFrame ops (JString frameId) (store w)")
  show ?thesis
  proof (cases r)
    case (Inl e)
    then show ?thesis using ne f by (simp add: get_frameData_def)
  next
    case (Inr found)
    then show ?thesis using ne f by (cases found) (simp_all add: get_frameData_def)
  qed
qed

text \<open>
  An instance: the answer for a stored frame with the cache as it is and with the cache
  emptied, and the answer for an identifier that the store does not have.
\<close>

theorem get_frameData_reads_store_witness:
  "''0a1b2c'' \<noteq> [] \<and>
   fst (get_frameData mem_db ''0a1b2c'' serving_world) = SendBytes (replicate 768 0) \<and>
   fst (get_frameData mem_db ''0a1b2c'' (serving_world\<lparr>animationCache := []\<rparr>)) =
     SendBytes (replicate 768 0) \<and>
   fst (get_frameData mem_db ''ffffff'' serving_world) = SendText 404 ''Frame not found.'' \<and>
   animationCache (snd (get_frameData mem_db ''0a1b2c'' serving_world)) = [example_frame]"
proof -
  have a: "fst (fetchFrame mem_db (JString ''0a1b2c'') (store serving_world)) =
      Inr (Some (replicate 768 0))"
    by (simp add: mem_db_def serving_world_def)
  have b: "fst (fetchFrame mem_db (JString ''ffffff'') (store serving_world)) = Inr None"
    by (simp add: mem_db_def serving_world_def)
  have c: "animationCache serving_world = [example_frame]"
    by (simp add: serving_world_def)
  from get_frameData_reads_store[of "''0a1b2c''" mem_db serving_world "[]"]
    get_frameData_reads_store[of "''ffffff''" mem_db serving_world "[]"] a b c
  show ?thesis by simp
qed

text \<open>
  The cache does not decide the answer. After a save that replaces the only animation, the
  old frame is no longer cached and is still returned; and a frame that is cached while
  the store has nothing yields 404.
\<close>

theorem get_frameData_ignores_cache:
  "JString ''0a1b2c'' \<in> frameID ` set (animationCache serving_world) \<and>
   fst (get_frameData mem_db ''0a1b2c'' serving_world) = SendBytes (replicate 768 0) \<and>
   JString ''0a1b2c'' \<notin>
     frameID ` set (animationCache
       (snd (post_data plain_engine mem_db 6 [animation_of ''sunset'' [solid_frame 768 255]]
               serving_world))) \<and>
   fst (get_frameData mem_db ''0a1b2c''
         (snd (post_data plain_engine mem_db 6 [animation_of ''sunset'' [solid_frame 768 255]]
                 serving_world))) =
     SendBytes (replicate 768 0) \<and>
   JString ''0a1b2c'' \<in>
     frameID ` set (animationCache (serving_world\<lparr>store := \<lparr>stored_metadata = [], stored_frames = []\<rparr>\<rparr>)) \<and>
   fst (get_frameData mem_db ''0a1b2c''
         (serving_world\<lparr>store := \<lparr>stored_metadata = [], stored_frames = []\<rparr>\<rparr>)) =
     SendText 404 ''Frame not found.''"
proof -
  let ?body = "[animation_of ''sunset'' [solid_frame 768 255]]"
  let ?w1 = "snd (post_data plain_engine mem_db 6 ?body serving_world)"
  have le: "(1::nat) \<le> 6" by simp
  have rnd: "random serving_world = zeros" by (simp add: serving_world_def)
  have frs: "built_frames 6 ?body (zeros) =
     [\<lparr>frameID = JString ''000000'', frame_animationID = JString ''sunset'',
       data = replicate 768 255\<rparr>]"
    by (simp only: built_frames_single) (simp add: frame_bytes_solid ToUint8_255)
  note post = post_data_accepts[OF le animation_of_printable sunset_accepted,
      of mem_db serving_world]
  have cache1: "animationCache ?w1 =
     [\<lparr>frameID = JString ''000000'', frame_animationID = JString ''sunset'',
       data = replicate 768 255\<rparr>]"
    unfolding post using frs rnd by simp
  have store1: "stored_frames (store ?w1) =
     [(JString ''000000'', JString ''sunset'', replicate 768 255),
      (JString ''0a1b2c'', JString ''rainbow'', replicate 768 0)]"
    unfolding post using frs rnd by (simp add: mem_db_def serving_world_def)
  have a: "JString ''0a1b2c'' \<in> frameID ` set (animationCache serving_world)"
    by (simp add: serving_world_def example_frame_def)
  have b: "fst (get_frameData mem_db ''0a1b2c'' serving_world) = SendBytes (replicate 768 0)"
    by (simp add: get_frameData_def mem_db_def serving_world_def)
  have c: "JString ''0a1b2c'' \<notin> frameID ` set (animationCache ?w1)"
    using cache1 by simp
  have d: "fst (get_frameData mem_db ''0a1b2c'' ?w1) = SendBytes (replicate 768 0)"
    using store1 by (simp add: get_frameData_def mem_db_def)
  have e: "JString ''0a1b2c'' \<in>
     frameID ` set (animationCache (serving_world\<lparr>store := \<lparr>stored_metadata = [], stored_frames = []\<rparr>\<rparr>))"
    by (simp add: serving_world_def example_frame_def)
  have f: "fst (get_frameData mem_db ''0a1b2c''
         (serving_world\<lparr>store := \<lparr>stored_metadata = [], stored_frames = []\<rparr>\<rparr>)) =
     SendText 404 ''Frame not found.''"
    by (simp add: get_frameData_def mem_db_def)
  show ?thesis using a b c d e f by simp
qed

subsection \<open>Reading the metadata\<close>

text \<open>
  Claim C5. The specification gives the response of a metadata read the shape of an
  object with a field \<^verbatim>\<open>metadata\<close>, which is what \<open>fetchMetadataFromServer\<close> reads. The handler
  sends something else: whenever the identifier lengths pass its check, the response is
  the bare array of the cache, and the client, reading \<^verbatim>\<open>data.metadata\<close> from an array,
  gets \<^verbatim>\<open>undefined\<close>.
\<close>

theorem get_metadata_sends_bare_list:
  "check_metadataCache n (metadataCache w) = Inr () \<Longrightarrow>
   get_metadata n w = SendJson (JArray (map Metadata_json (metadataCache w))) \<and>
   fetchMetadataFromServer (get_metadata n w) = Inr JUndefined"
  by (simp add: get_metadata_def fetchMetadataFromServer_def property_array_metadata
      del: property.simps)

text \<open>
  An instance: the server that holds one animation.
\<close>

theorem get_metadata_sends_bare_list_witness:
  "check_metadataCache 6 (metadataCache serving_world) = Inr () \<and>
   get_metadata 6 serving_world =
     SendJson (JArray [JObject [(''animationID'', JString ''rainbow''),
                                (''frameDuration'', JNumber 100),
                                (''repeatCount'', JNumber 3),
                                (''totalFrames'', JNumber 1),
                                (''frameOrder'', JArray [JString ''0a1b2c''])]]) \<and>
   fetchMetadataFromServer (get_metadata 6 serving_world) = Inr JUndefined"
proof -
  have ok: "check_metadataCache 6 (metadataCache serving_world) = Inr ()"
    by (simp add: serving_world_def example_metadata_def assertTrue_def)
  have js: "map Metadata_json (metadataCache serving_world) =
      [JObject [(''animationID'', JString ''rainbow''),
                (''frameDuration'', JNumber 100),
                (''repeatCount'', JNumber 3),
                (''totalFrames'', JNumber 1),
                (''frameOrder'', JArray [JString ''0a1b2c''])]]"
    by (simp add: serving_world_def example_metadata_def Metadata_json_def)
  from get_metadata_sends_bare_list[OF ok]
  have sent: "get_metadata 6 serving_world =
      SendJson (JArray (map Metadata_json (metadataCache serving_world)))"
    and read: "fetchMetadataFromServer (get_metadata 6 serving_world) = Inr JUndefined"
    by blast+
  from sent have sent': "get_metadata 6 serving_world =
     SendJson (JArray [JObject [(''animationID'', JString ''rainbow''),
                                (''frameDuration'', JNumber 100),
                                (''repeatCount'', JNumber 3),
                                (''totalFrames'', JNumber 1),
                                (''frameOrder'', JArray [JString ''0a1b2c''])]])"
    unfolding js .
  show ?thesis using ok sent' read by (intro conjI)
qed

subsection \<open>Initialisation\<close>

text \<open>
  Claim C6, as the code has it. Take a store in memory with metadata, whose frames all
  have 768 bytes, whose metadata entries have a number as \<^verbatim>\<open>totalFrames\<close> and an identifier
  that converts to a text, and in which some entry refers, within its \<^verbatim>\<open>totalFrames\<close>, to an
  identifier with no stored frame. Initialisation then returns with the assertion error of
  line 68, whose message names the animation and the counter of the first reference that
  does not resolve. The metadata cache is the stored metadata, and the animation cache
  has received the frames of the references before that one, and only those: none when
  the first reference is the one that fails, a part of the animations otherwise.
\<close>

theorem init_fails_at_first_missing_frame:
  assumes "stored_metadata (store w) \<noteq> []" and "frames_sized (store w)"
    and "list_all (\<lambda>metadata. counted metadata \<and> printable eng (animationID metadata))
           (stored_metadata (store w))"
    and "\<exists>metadata \<in> set (stored_metadata (store w)).
           \<exists>j < frame_limit metadata. \<not> stored (store w) (frameOrder_at metadata j)"
  shows "\<exists>metadata j name before after.
           referenced (stored_metadata (store w)) = before @ (metadata, j) # after \<and>
           list_all (resolves (store w)) before \<and>
           \<not> stored (store w) (frameOrder_at metadata j) \<and>
           ToString eng (animationID metadata) = Inr name \<and>
           connectToDbAndInitCache eng mem_db testMetadata testAnimationData w =
             Some (Some (Error (''Could not find animation for name: '' @ name @
                                '' and frame number: '' @ string_of_nat j)),
                   w\<lparr>metadataCache := stored_metadata (store w),
                     animationCache := animationCache w @ map (loaded_frame (store w)) before\<rparr>)"
proof -
  let ?mds = "stored_metadata (store w)"
  let ?refs = "referenced ?mds"
  let ?P = "resolves (store w)"
  have missing: "\<not> list_all ?P ?refs"
    using assms(4) missing_reference_iff[of ?mds "store w"] by blast
  obtain metadata j where mj: "hd (dropWhile ?P ?refs) = (metadata, j)"
    by (cases "hd (dropWhile ?P ?refs)")
  from first_missing[OF missing] mj
  have mem: "(metadata, j) \<in> set ?refs" and nr: "\<not> ?P (metadata, j)"
    and dec: "?refs = takeWhile ?P ?refs @ (metadata, j) # tl (dropWhile ?P ?refs)"
    and pre: "list_all ?P (takeWhile ?P ?refs)"
    by simp_all
  from mem have "metadata \<in> set ?mds" by (auto simp: referenced_def)
  with assms(3) obtain name where name: "ToString eng (animationID metadata) = Inr name"
    by (auto simp: list_all_iff printable_iff)
  have msg: "missing_message eng (metadata, j) =
      ''Could not find animation for name: '' @ name @ '' and frame number: '' @ string_of_nat j"
    using name by (simp add: missing_message_def)
  have run: "connectToDbAndInitCache eng mem_db testMetadata testAnimationData w =
      Some (Some (Error (''Could not find animation for name: '' @ name @
                         '' and frame number: '' @ string_of_nat j)),
            w\<lparr>metadataCache := ?mds,
              animationCache := animationCache w @
                map (loaded_frame (store w)) (takeWhile ?P ?refs)\<rparr>)"
    using init_mem[OF assms(1-3), of testMetadata testAnimationData] missing mj msg by simp
  have gone: "\<not> stored (store w) (frameOrder_at metadata j)"
    using nr by (simp add: resolves_def)
  show ?thesis
    using dec pre gone name run by blast
qed

text \<open>
  Two instances. The metadata lists two frames and the store has the first: the message
  names frame number 1 and the cache holds the first frame. The metadata lists the same
  two frames in the other order: the message names frame number 0 and the cache is empty.
\<close>

theorem init_fails_at_first_missing_frame_witness:
  "stored_metadata (store gap_world) \<noteq> [] \<and> frames_sized (store gap_world) \<and>
   list_all (\<lambda>metadata. counted metadata \<and> printable plain_engine (animationID metadata))
     (stored_metadata (store gap_world)) \<and>
   (\<exists>metadata \<in> set (stored_metadata (store gap_world)).
     \<exists>j < frame_limit metadata. \<not> stored (store gap_world) (frameOrder_at metadata j)) \<and>
   connectToDbAndInitCache plain_engine mem_db [] no_test_data gap_world =
     Some (Some (Error ''Could not find animation for name: rainbow and frame number: 1''),
           gap_world\<lparr>metadataCache := stored_metadata (store gap_world),
                     animationCache := [example_frame]\<rparr>) \<and>
   connectToDbAndInitCache plain_engine mem_db [] no_test_data early_gap_world =
     Some (Some (Error ''Could not find animation for name: rainbow and frame number: 0''),
           early_gap_world\<lparr>metadataCache := stored_metadata (store early_gap_world),
                           animationCache := []\<rparr>)"
proof -
  let ?late = "gap_metadata [''0a1b2c'', ''ffffff'']"
  let ?early = "gap_metadata [''ffffff'', ''0a1b2c'']"
  have mds: "stored_metadata (store gap_world) = [?late]"
    "stored_metadata (store early_gap_world) = [?early]"
    by (simp_all add: gap_world_def early_gap_world_def)
  have frs: "stored_frames (store gap_world) =
      [(JString ''0a1b2c'', JString ''rainbow'', replicate 768 0)]"
    "stored_frames (store early_gap_world) =
      [(JString ''0a1b2c'', JString ''rainbow'', replicate 768 0)]"
    by (simp_all add: gap_world_def early_gap_world_def)
  have empty: "animationCache gap_world = []" "animationCache early_gap_world = []"
    by (simp_all add: gap_world_def early_gap_world_def)
  have st: "stored (store gap_world) (JString ''0a1b2c'')"
    "\<not> stored (store gap_world) (JString ''ffffff'')"
    "stored (store early_gap_world) (JString ''0a1b2c'')"
    "\<not> stored (store early_gap_world) (JString ''ffffff'')"
    by (simp_all add: stored_def frs)
  have ne: "stored_metadata (store gap_world) \<noteq> []" "stored_metadata (store early_gap_world) \<noteq> []"
    by (simp_all add: mds)
  have sized: "frames_sized (store gap_world)" "frames_sized (store early_gap_world)"
    by (simp_all add: frames_sized_def frs)
  have fields: "list_all (\<lambda>metadata. counted metadata \<and> printable plain_engine (animationID metadata))
      (stored_metadata (store gap_world))"
    "list_all (\<lambda>metadata. counted metadata \<and> printable plain_engine (animationID metadata))
      (stored_metadata (store early_gap_world))"
    by (simp_all add: mds gap_metadata_fields)
  have miss: "\<exists>metadata \<in> set (stored_metadata (store gap_world)).
      \<exists>j < frame_limit metadata. \<not> stored (store gap_world) (frameOrder_at metadata j)"
  proof (intro bexI[of _ ?late] exI[of _ "1::nat"] conjI)
    show "1 < frame_limit ?late" by (simp add: gap_metadata_fields)
    show "\<not> stored (store gap_world) (frameOrder_at ?late 1)"
      using st(2) by (simp add: gap_metadata_fields)
    show "?late \<in> set (stored_metadata (store gap_world))" by (simp add: mds)
  qed
  have miss': "\<exists>metadata \<in> set (stored_metadata (store early_gap_world)).
      \<exists>j < frame_limit metadata. \<not> stored (store early_gap_world) (frameOrder_at metadata j)"
  proof (intro bexI[of _ ?early] exI[of _ "0::nat"] conjI)
    show "0 < frame_limit ?early" by (simp add: gap_metadata_fields)
    show "\<not> stored (store early_gap_world) (frameOrder_at ?early 0)"
      using st(4) by (simp add: gap_metadata_fields)
    show "?early \<in> set (stored_metadata (store early_gap_world))" by (simp add: mds)
  qed
  have loaded: "loaded_frame (store gap_world) (?late, 0) = example_frame"
    by (simp add: loaded_frame_def frs gap_metadata_fields example_frame_def)
  have late: "connectToDbAndInitCache plain_engine mem_db [] no_test_data gap_world =
     Some (Some (Error ''Could not find animation for name: rainbow and frame number: 1''),
           gap_world\<lparr>metadataCache := stored_metadata (store gap_world),
                     animationCache := [example_frame]\<rparr>)"
  proof -
    from init_fails_at_first_missing_frame[OF ne(1) sized(1) fields(1) miss, of "[]" no_test_data]
    obtain metadata j name before after where
      dec: "referenced (stored_metadata (store gap_world)) = before @ (metadata, j) # after"
      and pre: "list_all (resolves (store gap_world)) before"
      and gone: "\<not> stored (store gap_world) (frameOrder_at metadata j)"
      and name: "ToString plain_engine (animationID metadata) = Inr name"
      and run: "connectToDbAndInitCache plain_engine mem_db [] no_test_data gap_world =
             Some (Some (Error (''Could not find animation for name: '' @ name @
                                '' and frame number: '' @ string_of_nat j)),
                   gap_world\<lparr>metadataCache := stored_metadata (store gap_world),
                     animationCache := animationCache gap_world @
                       map (loaded_frame (store gap_world)) before\<rparr>)"
      by blast
    from dec have dec': "[(?late, 0), (?late, 1)] = before @ (metadata, j) # after"
      by (simp add: mds referenced_gap)
    have "before \<noteq> []"
    proof
      assume "before = []"
      with dec' have "metadata = ?late" "j = 0" by simp_all
      with gone st(1) show False by (simp add: gap_metadata_fields)
    qed
    with dec' have parts: "before = [(?late, 0)]" "metadata = ?late" "j = 1"
      by (auto simp: Cons_eq_append_conv)
    have nm: "name = ''rainbow''"
      using name parts(2) by (simp add: gap_metadata_fields)
    show ?thesis
      using run by (simp add: parts nm string_of_nat_1 empty loaded)
  qed
  have early: "connectToDbAndInitCache plain_engine mem_db [] no_test_data early_gap_world =
     Some (Some (Error ''Could not find animation for name: rainbow and frame number: 0''),
           early_gap_world\<lparr>metadataCache := stored_metadata (store early_gap_world),
                           animationCache := []\<rparr>)"
  proof -
    from init_fails_at_first_missing_frame[OF ne(2) sized(2) fields(2) miss', of "[]" no_test_data]
    obtain metadata j name before after where
      dec: "referenced (stored_metadata (store early_gap_world)) = before @ (metadata, j) # after"
      and pre: "list_all (resolves (store early_gap_world)) before"
      and gone: "\<not> stored (store early_gap_world) (frameOrder_at metadata j)"
      and name: "ToString plain_engine (animationID metadata) = Inr name"
      and run: "connectToDbAndInitCache plain_engine mem_db [] no_test_data early_gap_world =
             Some (Some (Error (''Could not find animation for name: '' @ name @
                                '' and frame number: '' @ string_of_nat j)),
                   early_gap_world\<lparr>metadataCache := stored_metadata (store early_gap_world),
                     animationCache := animationCache early_gap_world @
                       map (loaded_frame (store early_gap_world)) before\<rparr>)"
      by blast
    from dec have dec': "[(?early, 0), (?early, 1)] = before @ (metadata, j) # after"
      by (simp add: mds referenced_gap)
    have "before = []"
    proof (rule ccontr)
      assume "before \<noteq> []"
      with dec' have "hd before = (?early, 0)"
        by (cases before) simp_all
      moreover from \<open>before \<noteq> []\<close> pre have "resolves (store early_gap_world) (hd before)"
        by (cases before) simp_all
      ultimately show False
        using st(4) by (simp add: resolves_def gap_metadata_fields)
    qed
    with dec' have parts: "before = []" "metadata = ?early" "j = 0"
      by simp_all
    have nm: "name = ''rainbow''"
      using name parts(2) by (simp add: gap_metadata_fields)
    show ?thesis
      using run by (simp add: parts nm string_of_nat_0 empty)
  qed
  show ?thesis
    using ne(1) sized(1) fields(1) miss late early by simp
qed

text \<open>
  The animation cache after a failed initialisation is not always empty: with the store
  that has the first of two frames, started from an empty cache, the first frame is in
  the cache when the assertion fails on the second.
\<close>

theorem init_leaves_partial_cache:
  "(\<exists>metadata \<in> set (stored_metadata (store gap_world)).
     \<exists>j < frame_limit metadata. \<not> stored (store gap_world) (frameOrder_at metadata j)) \<and>
   animationCache gap_world = [] \<and>
   connectToDbAndInitCache plain_engine mem_db [] no_test_data gap_world =
     Some (Some (Error ''Could not find animation for name: rainbow and frame number: 1''),
           gap_world\<lparr>metadataCache := stored_metadata (store gap_world),
                     animationCache :=
                       [\<lparr>frameID = JString ''0a1b2c'', frame_animationID = JString ''rainbow'',
                         data = replicate 768 0\<rparr>]\<rparr>) \<and>
   animationCache (snd (the (connectToDbAndInitCache plain_engine mem_db [] no_test_data gap_world)))
     \<noteq> []"
proof -
  let ?late = "gap_metadata [''0a1b2c'', ''ffffff'']"
  let ?P = "resolves (store gap_world)"
  have mds: "stored_metadata (store gap_world) = [?late]"
    by (simp add: gap_world_def)
  have frs: "stored_frames (store gap_world) =
      [(JString ''0a1b2c'', JString ''rainbow'', replicate 768 0)]"
    by (simp add: gap_world_def)
  have empty: "animationCache gap_world = []"
    by (simp add: gap_world_def)
  have st: "?P (?late, 0)" "\<not> ?P (?late, 1)"
    by (simp_all add: resolves_def stored_def frs gap_metadata_fields)
  have ne: "stored_metadata (store gap_world) \<noteq> []" by (simp add: mds)
  have sized: "frames_sized (store gap_world)" by (simp add: frames_sized_def frs)
  have fields: "list_all (\<lambda>metadata. counted metadata \<and> printable plain_engine (animationID metadata))
      (stored_metadata (store gap_world))"
    by (simp add: mds gap_metadata_fields)
  have miss: "\<exists>metadata \<in> set (stored_metadata (store gap_world)).
      \<exists>j < frame_limit metadata. \<not> stored (store gap_world) (frameOrder_at metadata j)"
  proof (intro bexI[of _ ?late] exI[of _ "1::nat"] conjI)
    show "1 < frame_limit ?late" by (simp add: gap_metadata_fields)
    show "\<not> stored (store gap_world) (frameOrder_at ?late 1)"
      using st(2) by (simp add: resolves_def)
    show "?late \<in> set (stored_metadata (store gap_world))" by (simp add: mds)
  qed
  have loaded: "loaded_frame (store gap_world) (?late, 0) =
      \<lparr>frameID = JString ''0a1b2c'', frame_animationID = JString ''rainbow'',
        data = replicate 768 0\<rparr>"
    by (simp add: loaded_frame_def frs gap_metadata_fields)
  have msg: "missing_message plain_engine (?late, 1) =
      ''Could not find animation for name: rainbow and frame number: 1''"
    by (simp add: missing_message_def gap_metadata_fields string_of_nat_1)
  have run: "connectToDbAndInitCache plain_engine mem_db [] no_test_data gap_world =
     Some (Some (Error ''Could not find animation for name: rainbow and frame number: 1''),
           gap_world\<lparr>metadataCache := stored_metadata (store gap_world),
                     animationCache :=
                       [\<lparr>frameID = JString ''0a1b2c'', frame_animationID = JString ''rainbow'',
                         data = replicate 768 0\<rparr>]\<rparr>)"
    unfolding init_mem[OF ne sized fields]
    using st loaded msg empty by (simp add: mds referenced_gap)
  show ?thesis using miss empty run by simp
qed

subsection \<open>Persistence\<close>

text \<open>
  Claim C7. For every call that reaches the assignment of the caches (the logs and both
  loops have run to their end), whatever the store then answers, the caches are not
  rolled back: after the call the metadata cache and the animation cache hold what the
  call built. That is so when the write of the metadata fails, which the handler answers
  with 501, and when the write of a frame fails, which \<^verbatim>\<open>pushAnimationCacheToMongo\<close> only
  logs, so that the handler answers 200.
\<close>

theorem post_data_no_rollback:
  assumes "log_first_animation eng body = Inr ()"
    and "build_animations eng len body [] [] (random w) = (Inr (newMetadata, newAnimationData), rs)"
  shows "metadataCache (snd (post_data eng ops len body w)) = newMetadata \<and>
         animationCache (snd (post_data eng ops len body w)) = newAnimationData \<and>
         fst (post_data eng ops len body w) =
           (case fst (replaceMetadataArray ops newMetadata (store w)) of
              Inl err \<Rightarrow> SendStatus 501
            | Inr u \<Rightarrow>
                (case fst (pushAnimationCacheToMongo eng ops newAnimationData
                             (snd (replaceMetadataArray ops newMetadata (store w)))) of
                   Some err \<Rightarrow> SendStatus 501
                 | None \<Rightarrow> SendStatus 200))"
  using post_data_built[OF assms, of ops] by simp

text \<open>
  Two instances, on a server that holds one animation. The store refuses the metadata:
  the handler answers 501, the caches hold the new animation and the store still has the
  old metadata. The store refuses every frame: the handler answers 200, the caches hold
  the new animation and its frame, and the store has the new metadata but not the frame.
\<close>

theorem post_data_no_rollback_witness:
  "fst (post_data plain_engine failing_db 6 [animation_of ''sunset'' [solid_frame 768 255]]
          serving_world) = SendStatus 501 \<and>
   metadataCache (snd (post_data plain_engine failing_db 6
                         [animation_of ''sunset'' [solid_frame 768 255]] serving_world)) =
     [\<lparr>animationID = JString ''sunset'', frameDuration = JNumber 100, repeatCount = JNumber 1,
       totalFrames = JNumber 1, frameOrder = [''000000'']\<rparr>] \<and>
   animationCache (snd (post_data plain_engine failing_db 6
                         [animation_of ''sunset'' [solid_frame 768 255]] serving_world)) =
     [\<lparr>frameID = JString ''000000'', frame_animationID = JString ''sunset'',
       data = replicate 768 255\<rparr>] \<and>
   stored_metadata (store (snd (post_data plain_engine failing_db 6
                         [animation_of ''sunset'' [solid_frame 768 255]] serving_world))) =
     [example_metadata] \<and>
   fst (post_data plain_engine frames_failing_db 6 [animation_of ''sunset'' [solid_frame 768 255]]
          serving_world) = SendStatus 200 \<and>
   metadataCache (snd (post_data plain_engine frames_failing_db 6
                         [animation_of ''sunset'' [solid_frame 768 255]] serving_world)) =
     [\<lparr>animationID = JString ''sunset'', frameDuration = JNumber 100, repeatCount = JNumber 1,
       totalFrames = JNumber 1, frameOrder = [''000000'']\<rparr>] \<and>
   animationCache (snd (post_data plain_engine frames_failing_db 6
                         [animation_of ''sunset'' [solid_frame 768 255]] serving_world)) =
     [\<lparr>frameID = JString ''000000'', frame_animationID = JString ''sunset'',
       data = replicate 768 255\<rparr>] \<and>
   stored_frames (store (snd (post_data plain_engine frames_failing_db 6
                         [animation_of ''sunset'' [solid_frame 768 255]] serving_world))) =
     [(JString ''0a1b2c'', JString ''rainbow'', replicate 768 0)]"
proof -
  let ?body = "[animation_of ''sunset'' [solid_frame 768 255]]"
  let ?M = "[\<lparr>animationID = JString ''sunset'', frameDuration = JNumber 100, repeatCount = JNumber 1,
       totalFrames = JNumber 1, frameOrder = [''000000'']\<rparr>]"
  let ?F = "[\<lparr>frameID = JString ''000000'', frame_animationID = JString ''sunset'',
       data = replicate 768 255\<rparr>]"
  have le: "(1::nat) \<le> 6" by simp
  have logged: "log_first_animation plain_engine ?body = Inr ()"
    by (rule log_first_animation_ok[OF animation_of_printable sunset_accepted])
  have rnd: "random serving_world = zeros" by (simp add: serving_world_def)
  have m: "built_metadata 6 ?body (zeros) = ?M"
    by (rule built_metadata_single)
  have f: "built_frames 6 ?body (zeros) = ?F"
    by (simp only: built_frames_single) (simp add: frame_bytes_solid ToUint8_255)
  have build: "build_animations plain_engine 6 ?body [] [] (random serving_world) =
      (Inr (?M, ?F), drawn 6 (total_frames ?body) (zeros))"
    using build_animations_ok[OF le sunset_accepted, of plain_engine "[]" "[]" "zeros"]
    by (simp only: rnd m f append_Nil)
  have printable: "list_all (\<lambda>frame. printable plain_engine (frameID frame) \<and>
      printable plain_engine (frame_animationID frame)) ?F"
    by simp
  have push: "pushAnimationCacheToMongo plain_engine frames_failing_db ?F s = (None, s)" for s
    by (rule push_frames_failing_db[OF printable])
  note built = post_data_built[OF logged build]
  have refused: "stored_metadata (store (snd (post_data plain_engine failing_db 6 ?body serving_world))) =
      [example_metadata]"
    unfolding built
    by (simp add: push_failing_db serving_world_def del: pushAnimationCacheToMongo.simps)
  have unsaved: "stored_frames (store (snd (post_data plain_engine frames_failing_db 6 ?body
      serving_world))) = [(JString ''0a1b2c'', JString ''rainbow'', replicate 768 0)]"
    unfolding built
    by (simp add: push serving_world_def del: pushAnimationCacheToMongo.simps)
  from post_data_no_rollback[OF logged build, of failing_db]
    post_data_no_rollback[OF logged build, of frames_failing_db] refused unsaved
  show ?thesis by (simp add: push del: pushAnimationCacheToMongo.simps)
qed

subsection \<open>Frame identifiers in the cache\<close>

text \<open>
  Claim C8, as the code has it. After every accepted save the identifiers of the cached
  frames are, in order, the identifiers the generator returned during that call, so they
  are pairwise distinct exactly when those outputs were: nothing checks or draws again.
  After an initialisation from a store in memory whose references all resolve, started
  with an empty cache, they are the identifiers that the stored metadata refers to, in
  order. A save is accepted under the conditions of claim C3; the store is as in claim
  C6.
\<close>

theorem cached_frameIDs_follow_their_source:
  "(1 \<le> len \<and> first_printable eng body \<and> list_all entry_accepted body \<longrightarrow>
      map frameID (animationCache (snd (post_data eng ops len body w))) =
        map JString (generated_ids len (total_frames body) (random w)) \<and>
      distinct (map frameID (animationCache (snd (post_data eng ops len body w)))) =
        distinct (generated_ids len (total_frames body) (random w))) \<and>
   (stored_metadata (store v) \<noteq> [] \<and> frames_sized (store v) \<and> animationCache v = [] \<and>
    list_all (\<lambda>metadata. counted metadata \<and> printable eng (animationID metadata))
      (stored_metadata (store v)) \<and>
    list_all (resolves (store v)) (referenced (stored_metadata (store v))) \<longrightarrow>
      (\<exists>v'. connectToDbAndInitCache eng mem_db testMetadata testAnimationData v = Some (None, v') \<and>
            map frameID (animationCache v') =
              map (\<lambda>ref. frameOrder_at (fst ref) (snd ref)) (referenced (stored_metadata (store v)))))"
proof (intro conjI impI)
  assume a: "1 \<le> len \<and> first_printable eng body \<and> list_all entry_accepted body"
  then have "animationCache (snd (post_data eng ops len body w)) = built_frames len body (random w)"
    using post_data_accepts_caches(2) by blast
  then show eq: "map frameID (animationCache (snd (post_data eng ops len body w))) =
        map JString (generated_ids len (total_frames body) (random w))"
    using a frameID_built_frames by simp
  have "inj JString" by (simp add: inj_def)
  then show "distinct (map frameID (animationCache (snd (post_data eng ops len body w)))) =
        distinct (generated_ids len (total_frames body) (random w))"
    using eq by (simp add: distinct_map inj_on_def)
next
  assume b: "stored_metadata (store v) \<noteq> [] \<and> frames_sized (store v) \<and> animationCache v = [] \<and>
    list_all (\<lambda>metadata. counted metadata \<and> printable eng (animationID metadata))
      (stored_metadata (store v)) \<and>
    list_all (resolves (store v)) (referenced (stored_metadata (store v)))"
  then have tw: "takeWhile (resolves (store v)) (referenced (stored_metadata (store v))) =
      referenced (stored_metadata (store v))"
    by (simp add: list_all_iff)
  from b have "connectToDbAndInitCache eng mem_db testMetadata testAnimationData v =
      Some (None,
            v\<lparr>metadataCache := stored_metadata (store v),
              animationCache := map (loaded_frame (store v)) (referenced (stored_metadata (store v)))\<rparr>)"
    using init_mem[of v eng testMetadata testAnimationData] tw by simp
  then show "\<exists>v'. connectToDbAndInitCache eng mem_db testMetadata testAnimationData v = Some (None, v') \<and>
            map frameID (animationCache v') =
              map (\<lambda>ref. frameOrder_at (fst ref) (snd ref)) (referenced (stored_metadata (store v)))"
    by simp
qed

text \<open>
  An instance: a save of two frames with a random supply that gives two different
  identifiers, and a restart of the server that holds one animation.
\<close>

theorem cached_frameIDs_follow_their_source_witness:
  "((1::nat) \<le> 6 \<and> first_printable plain_engine two_frames \<and> list_all entry_accepted two_frames) \<and>
   map frameID (animationCache (snd (post_data plain_engine mem_db 6 two_frames
                                       (idle_world\<lparr>random := sixteenths\<rparr>)))) =
     [JString ''012345'', JString ''6789ab''] \<and>
   distinct (map frameID
     (animationCache (snd (post_data plain_engine mem_db 6 two_frames
                             (idle_world\<lparr>random := sixteenths\<rparr>))))) \<and>
   (stored_metadata (store restart_world) \<noteq> [] \<and> frames_sized (store restart_world) \<and>
    animationCache restart_world = [] \<and>
    list_all (\<lambda>metadata. counted metadata \<and> printable plain_engine (animationID metadata))
      (stored_metadata (store restart_world)) \<and>
    list_all (resolves (store restart_world)) (referenced (stored_metadata (store restart_world)))) \<and>
   (\<exists>v'. connectToDbAndInitCache plain_engine mem_db [] no_test_data restart_world = Some (None, v') \<and>
         map frameID (animationCache v') = [JString ''0a1b2c''])"
proof -
  have h1: "(1::nat) \<le> 6 \<and> first_printable plain_engine two_frames \<and>
      list_all entry_accepted two_frames"
    using two_frames_accepted by (simp add: two_frames_def animation_of_printable)
  have mds: "stored_metadata (store restart_world) = [example_metadata]"
    by (simp add: restart_world_def serving_world_def)
  have frs: "stored_frames (store restart_world) =
      [(JString ''0a1b2c'', JString ''rainbow'', replicate 768 0)]"
    by (simp add: restart_world_def serving_world_def)
  have h2: "stored_metadata (store restart_world) \<noteq> [] \<and> frames_sized (store restart_world) \<and>
    animationCache restart_world = [] \<and>
    list_all (\<lambda>metadata. counted metadata \<and> printable plain_engine (animationID metadata))
      (stored_metadata (store restart_world)) \<and>
    list_all (resolves (store restart_world)) (referenced (stored_metadata (store restart_world)))"
    unfolding mds
    by (simp add: example_metadata_fields frames_sized_def frs resolves_def stored_def)
       (simp add: restart_world_def)
  from cached_frameIDs_follow_their_source[of 6 plain_engine two_frames mem_db
      "idle_world\<lparr>random := sixteenths\<rparr>" restart_world "[]" no_test_data] h1 h2
  show ?thesis
    by (simp add: total_two_frames ids_sixteenths mds example_metadata_fields)
qed

text \<open>
  The identifiers are not unique for every sequence of generator outputs: when every
  draw is 0, the two frames of one save are cached under the same identifier.
\<close>

theorem post_data_duplicate_frameIDs:
  "animationCache (snd (post_data plain_engine mem_db 6 two_frames idle_world)) =
     [\<lparr>frameID = JString ''000000'', frame_animationID = JString ''sunrise'',
       data = replicate 768 0\<rparr>,
      \<lparr>frameID = JString ''000000'', frame_animationID = JString ''sunrise'',
       data = replicate 768 255\<rparr>] \<and>
   \<not> distinct (map frameID (animationCache (snd (post_data plain_engine mem_db 6 two_frames
                                                    idle_world))))"
proof -
  have le: "(1::nat) \<le> 6" by simp
  have pr: "first_printable plain_engine two_frames"
    by (simp add: two_frames_def animation_of_printable)
  have ids: "generated_ids 6 (Suc (Suc 0)) (zeros) = [''000000'', ''000000'']"
    using generated_ids_zeros[of 6 "Suc (Suc 0)"] by (simp add: eval_nat_numeral)
  have rnd: "random idle_world = zeros" by (simp add: idle_world_def)
  have built: "built_frames 6 two_frames (zeros) =
     [\<lparr>frameID = JString ''000000'', frame_animationID = JString ''sunrise'',
       data = replicate 768 0\<rparr>,
      \<lparr>frameID = JString ''000000'', frame_animationID = JString ''sunrise'',
       data = replicate 768 255\<rparr>]"
    using ids
    by (simp add: two_frames_def animation_of_def frame_list_def made_frames_def frame_bytes_solid
        ToUint8_0 ToUint8_255 del: generated_ids.simps)
  have "animationCache (snd (post_data plain_engine mem_db 6 two_frames idle_world)) =
      built_frames 6 two_frames (zeros)"
    using post_data_accepts_caches(2)[OF le pr two_frames_accepted, of mem_db idle_world] rnd
    by simp
  then show ?thesis using built by simp
qed

subsection \<open>The validation function\<close>

text \<open>
  Claim C10. For every input array, whatever its entries, \<open>verifyAnimationJson\<close> returns
  \<^verbatim>\<open>true\<close>: the error that the \<^verbatim>\<open>try\<close> block catches is returned from the callback of
  \<^verbatim>\<open>forEach\<close>, which drops it.
\<close>

theorem verifyAnimationJson_always_true: "verifyAnimationJson eng input = Inr True"
  unfolding verifyAnimationJson_def by (simp split: unit.split)

text \<open>
  An instance: a null entry, an animation without frames and an animation whose frame has
  no \<^verbatim>\<open>length\<close> of 256 each make the callback return an error, and the function returns
  \<^verbatim>\<open>true\<close> for the list of the three.
\<close>

theorem verifyAnimationJson_always_true_witness:
  "verify_callback plain_engine None = Some (Error ''given var is null'') \<and>
   verify_callback plain_engine (animation_of ''sunrise'' []) =
     Some (Error ''frame list has no entries'') \<and>
   verify_callback plain_engine (animation_of ''sunrise'' [solid_frame 768 0]) =
     Some (Error ''0th entry length in color array frame list != 256'') \<and>
   verifyAnimationJson plain_engine
     [None, animation_of ''sunrise'' [], animation_of ''sunrise'' [solid_frame 768 0]] = Inr True"
  using verify_callback_catches(1,3,4)
    verifyAnimationJson_always_true
      [of plain_engine
          "[None, animation_of ''sunrise'' [], animation_of ''sunrise'' [solid_frame 768 0]]"]
  by simp

end
